theory Spec2Isabelle
  imports Complex_Main "HOL-Library.AList" "HOL-Library.List_Lexorder"
begin

section \<open>Python values\<close>

text \<open>
  A \<^verbatim>\<open>bytes\<close> object is a list of bytes (\<open>char\<close> is the 8-bit type); a \<^verbatim>\<open>str\<close> is a
  list of Unicode code points.  Exceptions are values of \<open>py_exception\<close>; the message
  an exception carries is only ever printed by the programs and is left out.
  \<open>SegmentationFault\<close> is not an exception: it stands for the death of the process on
  an access to unmapped memory, which no \<^verbatim>\<open>except\<close> clause catches.
\<close>

type_synonym bytes = "char list"
type_synonym pystr = "nat list"

datatype py_exception =
    SocketStreamClosed
  | ConnectionResetError
  | ConnectionRefusedError
  | BlockingIOError
  | OSError
  | UnicodeDecodeError
  | UnicodeEncodeError
  | JSONDecodeError
  | ValueError
  | KeyError
  | TypeError
  | IndexError
  | RecursionError
  | FileNotFoundError
  | FileExistsError
  | SegmentationFault

text \<open>An ASCII literal of the source, as a \<^verbatim>\<open>str\<close>.\<close>

definition str :: "string \<Rightarrow> pystr" where
  "str s = map of_char s"

subsection \<open>\<^verbatim>\<open>bytes.decode('utf-8')\<close>\<close>

definition is_continuation :: "nat \<Rightarrow> bool" where
  "is_continuation b = (0x80 \<le> b \<and> b < 0xC0)"

text \<open>
  The strict decoder: overlong forms, surrogates and code points above U+10FFFF are
  rejected, as is a truncated sequence.  \<open>None\<close> is \<^verbatim>\<open>UnicodeDecodeError\<close>.
\<close>

fun utf8_decode :: "nat list \<Rightarrow> pystr option" where
  "utf8_decode [] = Some []"
| "utf8_decode (b # bs) =
    (if b < 0x80 then map_option ((#) b) (utf8_decode bs)
     else if 0xC2 \<le> b \<and> b < 0xE0 then
       (case bs of
          b1 # r \<Rightarrow>
            if is_continuation b1
            then map_option ((#) ((b - 0xC0) * 64 + (b1 - 0x80))) (utf8_decode r)
            else None
        | [] \<Rightarrow> None)
     else if 0xE0 \<le> b \<and> b < 0xF0 then
       (case bs of
          b1 # b2 # r \<Rightarrow>
            (let cp = (b - 0xE0) * 4096 + (b1 - 0x80) * 64 + (b2 - 0x80)
             in if is_continuation b1 \<and> is_continuation b2 \<and> 0x800 \<le> cp
                   \<and> \<not> (0xD800 \<le> cp \<and> cp < 0xE000)
                then map_option ((#) cp) (utf8_decode r)
                else None)
        | _ \<Rightarrow> None)
     else if 0xF0 \<le> b \<and> b < 0xF5 then
       (case bs of
          b1 # b2 # b3 # r \<Rightarrow>
            (let cp = (b - 0xF0) * 262144 + (b1 - 0x80) * 4096 + (b2 - 0x80) * 64 + (b3 - 0x80)
             in if is_continuation b1 \<and> is_continuation b2 \<and> is_continuation b3
                   \<and> 0x10000 \<le> cp \<and> cp < 0x110000
                then map_option ((#) cp) (utf8_decode r)
                else None)
        | _ \<Rightarrow> None)
     else None)"

definition decode :: "bytes \<Rightarrow> pystr option" where
  "decode bs = utf8_decode (map of_char bs)"

subsection \<open>\<^verbatim>\<open>find\<close> on \<^verbatim>\<open>bytes\<close> and \<^verbatim>\<open>str\<close>\<close>

definition startswith :: "'a list \<Rightarrow> 'a list \<Rightarrow> bool" where
  "startswith s sub = (take (length sub) s = sub)"

text \<open>\<open>find_at sub s i\<close> scans \<open>s\<close>, whose first element has index \<open>i\<close>.\<close>

fun find_at :: "'a list \<Rightarrow> 'a list \<Rightarrow> nat \<Rightarrow> nat option" where
  "find_at sub [] i = (if sub = [] then Some i else None)"
| "find_at sub (x # xs) i =
    (if startswith (x # xs) sub then Some i else find_at sub xs (Suc i))"

text \<open>
  \<^verbatim>\<open>s.find(sub, start)\<close> for \<open>start \<ge> 0\<close>: the lowest index at or after \<open>start\<close> where
  \<open>sub\<close> occurs; \<open>None\<close> is the result \<^verbatim>\<open>-1\<close>, also when \<open>start\<close> is beyond the end.
\<close>

definition py_find :: "'a list \<Rightarrow> 'a list \<Rightarrow> nat \<Rightarrow> nat option" where
  "py_find s sub start =
    (if length s < start then None else find_at sub (drop start s) start)"

section \<open>Framed messages\<close>

definition MESSAGE_DELIMITER :: bytes where
  "MESSAGE_DELIMITER = [CHR 0x0A]"

text \<open>
  A socket is the list of the outcomes of its future \<^verbatim>\<open>recv(4096)\<close> calls: the bytes
  returned (none on an orderly close) or the exception raised.  When the list is used
  up the blocking call does not return, which is the result \<open>None\<close> of a reader.
\<close>

datatype recv_outcome = Recv bytes | RecvRaises py_exception

type_synonym socket = "recv_outcome list"

text \<open>
  The scan of the buffer that opens every iteration of the three readers: the message
  before the first delimiter, and the buffer that remains after it.
\<close>

definition split_buffer :: "bytes \<Rightarrow> (bytes \<times> bytes) option" where
  "split_buffer recv_buffer =
    (case py_find recv_buffer MESSAGE_DELIMITER 0 of
       None \<Rightarrow> None
     | Some delimiter_pos \<Rightarrow>
         Some (take delimiter_pos recv_buffer,
               drop (delimiter_pos + length MESSAGE_DELIMITER) recv_buffer))"

text \<open>
  A reader returns its result (the message or the exception that leaves the function),
  the global receive buffer and the socket as they are on return.
\<close>

type_synonym read_result = "((py_exception + pystr) \<times> bytes \<times> socket) option"

text \<open>
  \<^verbatim>\<open>OrderBook.receive_framed_message\<close>.  The whole loop body is inside the \<^verbatim>\<open>try\<close>:
  \<^verbatim>\<open>BlockingIOError\<close> starts the next iteration, and every other exception, the decoding
  error and the function's own \<^verbatim>\<open>SocketStreamClosed\<close> included, leaves as
  \<^verbatim>\<open>SocketStreamClosed\<close>.
\<close>

fun OrderBook_receive_framed_message :: "bytes \<Rightarrow> socket \<Rightarrow> read_result" where
  "OrderBook_receive_framed_message recv_buffer [] =
    (case split_buffer recv_buffer of
       Some (message, rest) \<Rightarrow>
         (case decode message of
            Some text \<Rightarrow> Some (Inr text, rest, [])
          | None \<Rightarrow> Some (Inl SocketStreamClosed, rest, []))
     | None \<Rightarrow> None)"
| "OrderBook_receive_framed_message recv_buffer (Recv chunk # sock) =
    (case split_buffer recv_buffer of
       Some (message, rest) \<Rightarrow>
         (case decode message of
            Some text \<Rightarrow> Some (Inr text, rest, Recv chunk # sock)
          | None \<Rightarrow> Some (Inl SocketStreamClosed, rest, Recv chunk # sock))
     | None \<Rightarrow>
         if chunk = [] then Some (Inl SocketStreamClosed, recv_buffer, sock)
         else OrderBook_receive_framed_message (recv_buffer @ chunk) sock)"
| "OrderBook_receive_framed_message recv_buffer (RecvRaises e # sock) =
    (case split_buffer recv_buffer of
       Some (message, rest) \<Rightarrow>
         (case decode message of
            Some text \<Rightarrow> Some (Inr text, rest, RecvRaises e # sock)
          | None \<Rightarrow> Some (Inl SocketStreamClosed, rest, RecvRaises e # sock))
     | None \<Rightarrow>
         if e = BlockingIOError then OrderBook_receive_framed_message recv_buffer sock
         else Some (Inl SocketStreamClosed, recv_buffer, sock))"

text \<open>
  \<^verbatim>\<open>Strategy.receive_framed_news_message\<close>: the same loop without the
  \<^verbatim>\<open>BlockingIOError\<close> clause.
\<close>

fun receive_framed_news_message :: "bytes \<Rightarrow> socket \<Rightarrow> read_result" where
  "receive_framed_news_message news_recv_buffer [] =
    (case split_buffer news_recv_buffer of
       Some (message, rest) \<Rightarrow>
         (case decode message of
            Some text \<Rightarrow> Some (Inr text, rest, [])
          | None \<Rightarrow> Some (Inl SocketStreamClosed, rest, []))
     | None \<Rightarrow> None)"
| "receive_framed_news_message news_recv_buffer (Recv chunk # sock) =
    (case split_buffer news_recv_buffer of
       Some (message, rest) \<Rightarrow>
         (case decode message of
            Some text \<Rightarrow> Some (Inr text, rest, Recv chunk # sock)
          | None \<Rightarrow> Some (Inl SocketStreamClosed, rest, Recv chunk # sock))
     | None \<Rightarrow>
         if chunk = [] then Some (Inl SocketStreamClosed, news_recv_buffer, sock)
         else receive_framed_news_message (news_recv_buffer @ chunk) sock)"
| "receive_framed_news_message news_recv_buffer (RecvRaises e # sock) =
    (case split_buffer news_recv_buffer of
       Some (message, rest) \<Rightarrow>
         (case decode message of
            Some text \<Rightarrow> Some (Inr text, rest, RecvRaises e # sock)
          | None \<Rightarrow> Some (Inl SocketStreamClosed, rest, RecvRaises e # sock))
     | None \<Rightarrow> Some (Inl SocketStreamClosed, news_recv_buffer, sock))"

text \<open>
  \<^verbatim>\<open>OrderManager.receive_framed_message\<close>: no \<^verbatim>\<open>try\<close>.  An orderly close raises
  \<^verbatim>\<open>ConnectionResetError\<close>; an exception of \<^verbatim>\<open>recv\<close> or of the decoder leaves unchanged.
\<close>

fun OrderManager_receive_framed_message :: "bytes \<Rightarrow> socket \<Rightarrow> read_result" where
  "OrderManager_receive_framed_message recv_buffer [] =
    (case split_buffer recv_buffer of
       Some (message, rest) \<Rightarrow>
         (case decode message of
            Some text \<Rightarrow> Some (Inr text, rest, [])
          | None \<Rightarrow> Some (Inl UnicodeDecodeError, rest, []))
     | None \<Rightarrow> None)"
| "OrderManager_receive_framed_message recv_buffer (Recv chunk # sock) =
    (case split_buffer recv_buffer of
       Some (message, rest) \<Rightarrow>
         (case decode message of
            Some text \<Rightarrow> Some (Inr text, rest, Recv chunk # sock)
          | None \<Rightarrow> Some (Inl UnicodeDecodeError, rest, Recv chunk # sock))
     | None \<Rightarrow>
         if chunk = [] then Some (Inl ConnectionResetError, recv_buffer, sock)
         else OrderManager_receive_framed_message (recv_buffer @ chunk) sock)"
| "OrderManager_receive_framed_message recv_buffer (RecvRaises e # sock) =
    (case split_buffer recv_buffer of
       Some (message, rest) \<Rightarrow>
         (case decode message of
            Some text \<Rightarrow> Some (Inr text, rest, RecvRaises e # sock)
          | None \<Rightarrow> Some (Inl UnicodeDecodeError, rest, RecvRaises e # sock))
     | None \<Rightarrow> Some (Inl e, recv_buffer, sock))"

definition is_Exception :: "py_exception \<Rightarrow> bool" where
  "is_Exception e = (e \<noteq> SegmentationFault)"

section \<open>Floating-point values\<close>

text \<open>
  Prices are IEEE doubles.  The embedding is generic in the type \<open>'f\<close> of these values
  and takes the operations the programs apply to them as a record: \<^verbatim>\<open>float(s)\<close> on a
  \<^verbatim>\<open>str\<close> (\<open>None\<close> is \<^verbatim>\<open>ValueError\<close>), the literal \<^verbatim>\<open>0.0\<close>, the comparisons \<^verbatim>\<open>==\<close> and
  \<^verbatim>\<open><\<close>, and \<^verbatim>\<open>numpy.mean\<close>.
\<close>

record 'f float_ops =
  float_of_str :: "pystr \<Rightarrow> 'f option"
  float_zero :: 'f
  float_eq :: "'f \<Rightarrow> 'f \<Rightarrow> bool"
  float_less :: "'f \<Rightarrow> 'f \<Rightarrow> bool"
  float_mean :: "'f list \<Rightarrow> 'f"

section \<open>The shared price book (\<^verbatim>\<open>shared_memory_utils.py\<close>)\<close>

subsection \<open>Shared memory\<close>

text \<open>
  A block of shared memory holds the records of dtype \<^verbatim>\<open>SHM_DTYPE\<close>, a symbol and a
  price each.  The operating system maps names to blocks; a block stays readable and
  writable through every mapping of it after its name is removed.
\<close>

type_synonym 'f row = "pystr \<times> 'f"

record 'f shm_world =
  names :: "pystr \<Rightarrow> nat option"
  blocks :: "nat \<Rightarrow> 'f row list"
  next_block :: nat

text \<open>A \<^verbatim>\<open>SharedMemory\<close> object: its name, the block it maps, and whether the mapping is open.\<close>

record shared_memory =
  name :: pystr
  block :: nat
  mapped :: bool

text \<open>
  A field of dtype \<^verbatim>\<open>U10\<close> keeps the first ten code points of what is stored in it and
  reads back without trailing NUL characters.
\<close>

definition U10 :: "pystr \<Rightarrow> pystr" where
  "U10 s = rev (dropWhile (\<lambda>c. c = 0) (rev (take 10 s)))"

text \<open>
  \<^verbatim>\<open>SharedMemory(name, create=True, size=n * itemsize)\<close> followed by the initialisation of
  the array with \<open>initial_data\<close>.
\<close>

definition SharedMemory_create ::
    "pystr \<Rightarrow> 'f row list \<Rightarrow> 'f shm_world \<Rightarrow> py_exception + (shared_memory \<times> 'f shm_world)" where
  "SharedMemory_create shm_name initial_data w =
    (if initial_data = [] then Inl ValueError
     else if names w shm_name \<noteq> None then Inl FileExistsError
     else Inr (\<lparr>name = shm_name, block = next_block w, mapped = True\<rparr>,
               w\<lparr>names := (names w)(shm_name \<mapsto> next_block w),
                 blocks := (blocks w)(next_block w := map (\<lambda>(sym, p). (U10 sym, p)) initial_data),
                 next_block := Suc (next_block w)\<rparr>))"

text \<open>
  \<^verbatim>\<open>SharedMemory(name, create=False)\<close> followed by \<^verbatim>\<open>np.ndarray(n, buffer=shm.buf)\<close>,
  which raises \<^verbatim>\<open>TypeError\<close> when the block is too small for \<open>n\<close> records.
\<close>

definition SharedMemory_attach ::
    "pystr \<Rightarrow> nat \<Rightarrow> 'f shm_world \<Rightarrow> py_exception + shared_memory" where
  "SharedMemory_attach shm_name n w =
    (case names w shm_name of
       None \<Rightarrow> Inl FileNotFoundError
     | Some b \<Rightarrow>
         if length (blocks w b) < n then Inl TypeError
         else Inr \<lparr>name = shm_name, block = b, mapped = True\<rparr>)"

definition SharedMemory_close :: "shared_memory \<Rightarrow> py_exception + shared_memory" where
  "SharedMemory_close m = Inr (m\<lparr>mapped := False\<rparr>)"

definition SharedMemory_unlink ::
    "shared_memory \<Rightarrow> 'f shm_world \<Rightarrow> py_exception + 'f shm_world" where
  "SharedMemory_unlink m w =
    (if names w (name m) = None then Inl FileNotFoundError
     else Inr (w\<lparr>names := (names w)(name m := None)\<rparr>))"

subsection \<open>\<^verbatim>\<open>SharedPriceBook\<close>\<close>

text \<open>
  The attributes of the object.  \<open>data_array\<close> is a view of the first \<open>size\<close>
  records of the mapped block and is read from the world; the lock is taken around
  every access to it and has no effect on a single process running alone.
\<close>

record SharedPriceBook =
  symbols :: "pystr list"
  shm_name :: pystr
  size_book :: nat
  shm :: "shared_memory option"
  symbol_to_index :: "(pystr \<times> nat) list"
  is_creator :: bool

text \<open>A dict comprehension: a later value for a key replaces the earlier one.\<close>

definition dict_of :: "('k \<times> 'v) list \<Rightarrow> ('k \<times> 'v) list" where
  "dict_of kvs = fold (\<lambda>(k, v). AList.update k v) kvs []"

definition SharedPriceBook_init ::
    "'f float_ops \<Rightarrow> pystr list \<Rightarrow> pystr \<Rightarrow> bool \<Rightarrow> 'f shm_world
      \<Rightarrow> py_exception + (SharedPriceBook \<times> 'f shm_world)" where
  "SharedPriceBook_init fl syms nm create w =
    (let self = \<lparr>symbols = sort syms, shm_name = nm, size_book = length (sort syms),
                 shm = None,
                 symbol_to_index = dict_of (map (\<lambda>(i, sym). (sym, i)) (enumerate 0 (sort syms))),
                 is_creator = create\<rparr>
     in if create then
          (case SharedMemory_create nm (map (\<lambda>sym. (sym, float_zero fl)) (symbols self)) w of
             Inl e \<Rightarrow> Inl e
           | Inr (m, w') \<Rightarrow> Inr (self\<lparr>shm := Some m\<rparr>, w'))
        else
          (case SharedMemory_attach nm (size_book self) w of
             Inl e \<Rightarrow> Inl e
           | Inr m \<Rightarrow> Inr (self\<lparr>shm := Some m\<rparr>, w)))"

definition data_array :: "SharedPriceBook \<Rightarrow> 'f shm_world \<Rightarrow> 'f row list" where
  "data_array self w =
    (case shm self of None \<Rightarrow> [] | Some m \<Rightarrow> take (size_book self) (blocks w (block m)))"

definition update ::
    "SharedPriceBook \<Rightarrow> pystr \<Rightarrow> 'f \<Rightarrow> 'f shm_world \<Rightarrow> py_exception + 'f shm_world" where
  "update self symbol price w =
    (case map_of (symbol_to_index self) symbol of
       None \<Rightarrow> Inr w
     | Some index \<Rightarrow>
         (case shm self of
            None \<Rightarrow> Inl TypeError
          | Some m \<Rightarrow>
              if \<not> mapped m then Inl SegmentationFault
              else if size_book self \<le> index then Inl IndexError
              else Inr (w\<lparr>blocks := (blocks w)
                          (block m := (blocks w (block m))
                             [index := (fst (blocks w (block m) ! index), price)])\<rparr>)))"

definition read_all ::
    "SharedPriceBook \<Rightarrow> 'f shm_world \<Rightarrow> py_exception + (pystr \<times> 'f) list" where
  "read_all self w =
    (case shm self of
       None \<Rightarrow> Inl TypeError
     | Some m \<Rightarrow>
         if \<not> mapped m then Inl SegmentationFault
         else Inr (dict_of (data_array self w)))"

text \<open>
  \<^verbatim>\<open>cleanup\<close>.  \<open>cleanup_except\<close> is the pair of \<^verbatim>\<open>except\<close> clauses: both end the call
  normally, in the state reached when the exception was raised.
\<close>

definition cleanup_except :: "py_exception \<Rightarrow> 'a \<Rightarrow> py_exception + 'a" where
  "cleanup_except e st =
    (if e = FileNotFoundError then Inr st
     else if is_Exception e then Inr st
     else Inl e)"

definition cleanup ::
    "SharedPriceBook \<Rightarrow> 'f shm_world \<Rightarrow> py_exception + (SharedPriceBook \<times> 'f shm_world)" where
  "cleanup self w =
    (case shm self of
       None \<Rightarrow> Inr (self, w)
     | Some m \<Rightarrow>
         (case SharedMemory_close m of
            Inl e \<Rightarrow> cleanup_except e (self, w)
          | Inr m' \<Rightarrow>
              if is_creator self then
                (case SharedMemory_unlink m' w of
                   Inl e \<Rightarrow> cleanup_except e (self\<lparr>shm := Some m'\<rparr>, w)
                 | Inr w' \<Rightarrow> Inr (self\<lparr>shm := Some m'\<rparr>, w'))
              else Inr (self\<lparr>shm := Some m'\<rparr>, w)))"

text \<open>\<^verbatim>\<open>close_shared_price_book\<close>, for the processes that attached.\<close>

definition close_shared_price_book :: "SharedPriceBook \<Rightarrow> py_exception + SharedPriceBook" where
  "close_shared_price_book shm_instance =
    (case shm shm_instance of
       None \<Rightarrow> Inr shm_instance
     | Some m \<Rightarrow>
         (case SharedMemory_close m of
            Inl e \<Rightarrow> Inl e
          | Inr m' \<Rightarrow> Inr (shm_instance\<lparr>shm := Some m'\<rparr>)))"

text \<open>
  What a book needs for \<^verbatim>\<open>update\<close> and \<^verbatim>\<open>read_all\<close> to run: it was set up by the
  constructor, its mapping is open, and the mapped block holds at least \<open>size\<close> records.
\<close>

definition usable :: "SharedPriceBook \<Rightarrow> 'f shm_world \<Rightarrow> bool" where
  "usable self w =
    (size_book self = length (symbols self)
     \<and> symbol_to_index self
         = dict_of (map (\<lambda>(i, sym). (sym, i)) (enumerate 0 (symbols self)))
     \<and> (case shm self of
          None \<Rightarrow> False
        | Some m \<Rightarrow> mapped m \<and> size_book self \<le> length (blocks w (block m))))"

section \<open>The price ingester (\<^verbatim>\<open>OrderBook.py\<close>)\<close>

subsection \<open>Strings\<close>

text \<open>\<^verbatim>\<open>str.isspace\<close> of one code point, which decides what \<^verbatim>\<open>str.strip()\<close> removes.\<close>

definition py_isspace :: "nat \<Rightarrow> bool" where
  "py_isspace c =
    ((0x09 \<le> c \<and> c \<le> 0x0D) \<or> (0x1C \<le> c \<and> c \<le> 0x20) \<or> c = 0x85 \<or> c = 0xA0
     \<or> c = 0x1680 \<or> (0x2000 \<le> c \<and> c \<le> 0x200A) \<or> c = 0x2028 \<or> c = 0x2029
     \<or> c = 0x202F \<or> c = 0x205F \<or> c = 0x3000)"

definition py_strip :: "pystr \<Rightarrow> pystr" where
  "py_strip s = rev (dropWhile py_isspace (rev (dropWhile py_isspace s)))"

text \<open>The slice \<^verbatim>\<open>s[i:j]\<close> for indices that are not negative.\<close>

definition py_slice :: "'a list \<Rightarrow> nat \<Rightarrow> nat \<Rightarrow> 'a list" where
  "py_slice s i j = take (j - i) (drop i s)"

subsection \<open>One message\<close>

text \<open>
  The inner \<^verbatim>\<open>for next_symbol in symbols\<close>: the end of the price is the start of the
  nearest other symbol found at or after \<open>start_index\<close>, or the end of the message.
\<close>

definition end_of_price :: "pystr list \<Rightarrow> pystr \<Rightarrow> pystr \<Rightarrow> nat \<Rightarrow> nat" where
  "end_of_price syms raw_message symbol start_index =
    fold (\<lambda>next_symbol end_index.
            if next_symbol \<noteq> symbol
            then (case py_find raw_message next_symbol start_index of
                    Some i \<Rightarrow> min end_index i
                  | None \<Rightarrow> end_index)
            else end_index)
         syms (length raw_message)"

text \<open>The body of \<^verbatim>\<open>for symbol in symbols\<close>.\<close>

definition parse_symbol ::
    "'f float_ops \<Rightarrow> pystr list \<Rightarrow> SharedPriceBook \<Rightarrow> pystr \<Rightarrow> pystr \<Rightarrow> 'f shm_world
      \<Rightarrow> py_exception + 'f shm_world" where
  "parse_symbol fl syms shm_book raw_message symbol w =
    (case py_find raw_message symbol 0 of
       None \<Rightarrow> Inr w
     | Some pos \<Rightarrow>
         (let start_index = pos + length symbol + 1;
              end_index = end_of_price syms raw_message symbol start_index;
              price_str = py_slice raw_message start_index end_index
          in case float_of_str fl (py_strip price_str) of
               None \<Rightarrow> Inl ValueError
             | Some price \<Rightarrow> update shm_book symbol price w))"

text \<open>
  The loop \<^verbatim>\<open>for symbol in symbols\<close> over the symbols still to come; an exception ends it
  and keeps the updates made before.
\<close>

fun parse_ticks ::
    "'f float_ops \<Rightarrow> pystr list \<Rightarrow> SharedPriceBook \<Rightarrow> pystr \<Rightarrow> pystr list \<Rightarrow> 'f shm_world
      \<Rightarrow> py_exception option \<times> 'f shm_world" where
  "parse_ticks fl syms shm_book raw_message [] w = (None, w)"
| "parse_ticks fl syms shm_book raw_message (symbol # rest) w =
    (case parse_symbol fl syms shm_book raw_message symbol w of
       Inl e \<Rightarrow> (Some e, w)
     | Inr w' \<Rightarrow> parse_ticks fl syms shm_book raw_message rest w')"

text \<open>What the order book prints, without the texts.\<close>

datatype orderbook_output =
    Fatal_not_found
  | Attempting_to_connect
  | Connected
  | Parsing_Error pystr
  | General_Parsing_Error
  | Connection_Error
  | Connection_Refused
  | Unexpected_Error

text \<open>
  The \<^verbatim>\<open>try\<close> around the parsing of one message, with its two \<^verbatim>\<open>except\<close> clauses.  The
  third component is what still propagates.
\<close>

definition handle_message ::
    "'f float_ops \<Rightarrow> pystr list \<Rightarrow> SharedPriceBook \<Rightarrow> pystr \<Rightarrow> 'f shm_world
      \<Rightarrow> 'f shm_world \<times> orderbook_output list \<times> py_exception option" where
  "handle_message fl syms shm_book raw_message w =
    (case parse_ticks fl syms shm_book raw_message syms w of
       (None, w') \<Rightarrow> (w', [], None)
     | (Some e, w') \<Rightarrow>
         if e = ValueError then (w', [Parsing_Error raw_message], None)
         else if is_Exception e then (w', [General_Parsing_Error], None)
         else (w', [], Some e))"

subsection \<open>One connection\<close>

text \<open>
  How a loop that has no exit ends: it waits in \<^verbatim>\<open>recv\<close> for ever, or an exception leaves
  it, with the receive buffer as it then is.
\<close>

datatype ending = Blocks | Raises py_exception bytes

text \<open>The bytes not yet looked at: the buffer, and what the socket will deliver.\<close>

fun pending :: "socket \<Rightarrow> nat" where
  "pending [] = 0"
| "pending (Recv chunk # sock) = Suc (length chunk + pending sock)"
| "pending (RecvRaises e # sock) = Suc (pending sock)"

lemma find_at_bound: "find_at [d] s i = Some pos \<Longrightarrow> pos < i + length s"
proof (induction s arbitrary: i)
  case Nil
  then show ?case by simp
next
  case (Cons a s)
  show ?case
  proof (cases "startswith (a # s) [d]")
    case True
    with Cons.prems show ?thesis by simp
  next
    case False
    with Cons.prems have "find_at [d] s (Suc i) = Some pos"
      by simp
    from Cons.IH [OF this] show ?thesis
      by simp
  qed
qed

lemma split_buffer_shorter:
  "split_buffer recv_buffer = Some (message, rest) \<Longrightarrow> length rest < length recv_buffer"
  by (auto simp: split_buffer_def py_find_def MESSAGE_DELIMITER_def
      split: option.splits dest: find_at_bound)

lemma OrderBook_receive_consumes:
  "OrderBook_receive_framed_message recv_buffer sock = Some (r, recv_buffer', sock') \<Longrightarrow>
   length recv_buffer' + pending sock' < length recv_buffer + pending sock"
proof (induction recv_buffer sock rule: OrderBook_receive_framed_message.induct)
  case (1 recv_buffer)
  then show ?case
    by (auto split: option.splits prod.splits dest: split_buffer_shorter)
next
  case (2 recv_buffer chunk sock)
  show ?case
  proof (cases "split_buffer recv_buffer")
    case None
    with "2.prems" "2.IH" show ?thesis
      by (auto split: if_splits)
  next
    case (Some found)
    with "2.prems" show ?thesis
      by (auto split: option.splits prod.splits dest: split_buffer_shorter)
  qed
next
  case (3 recv_buffer e sock)
  show ?case
  proof (cases "split_buffer recv_buffer")
    case None
    with "3.prems" "3.IH" show ?thesis
      by (auto split: if_splits)
  next
    case (Some found)
    with "3.prems" show ?thesis
      by (auto split: option.splits prod.splits dest: split_buffer_shorter)
  qed
qed

text \<open>The inner \<^verbatim>\<open>while True\<close> of \<^verbatim>\<open>run_orderbook\<close>.\<close>

function OrderBook_receive_loop ::
    "'f float_ops \<Rightarrow> pystr list \<Rightarrow> SharedPriceBook \<Rightarrow> bytes \<Rightarrow> socket \<Rightarrow> 'f shm_world
      \<Rightarrow> 'f shm_world \<times> orderbook_output list \<times> ending" where
  "OrderBook_receive_loop fl syms shm_book recv_buffer sock w =
    (case OrderBook_receive_framed_message recv_buffer sock of
       None \<Rightarrow> (w, [], Blocks)
     | Some (Inl e, recv_buffer', sock') \<Rightarrow> (w, [], Raises e recv_buffer')
     | Some (Inr raw_message, recv_buffer', sock') \<Rightarrow>
         if raw_message = [] then OrderBook_receive_loop fl syms shm_book recv_buffer' sock' w
         else
           (case handle_message fl syms shm_book raw_message w of
              (w', out, Some e) \<Rightarrow> (w', out, Raises e recv_buffer')
            | (w', out, None) \<Rightarrow>
                (case OrderBook_receive_loop fl syms shm_book recv_buffer' sock' w' of
                   (w'', outs, end) \<Rightarrow> (w'', out @ outs, end))))"
  by pat_completeness auto
termination
  by (relation "measure (\<lambda>(fl, syms, shm_book, recv_buffer, sock, w).
        length recv_buffer + pending sock)")
     (auto dest: OrderBook_receive_consumes)

declare OrderBook_receive_loop.simps [simp del]

subsection \<open>The connection loop\<close>

text \<open>
  The network as the order book meets it: the outcomes of its successive \<^verbatim>\<open>connect\<close>
  calls, each a socket or an exception.  When the list is used up the process is still
  running.
\<close>

datatype connect_outcome = Connects socket | ConnectRaises py_exception

datatype process_state = Running | Waiting_in_recv | Returned | Died py_exception

text \<open>The three \<^verbatim>\<open>except\<close> clauses of the outer \<^verbatim>\<open>while True\<close>.\<close>

definition OrderBook_except :: "py_exception \<Rightarrow> py_exception + orderbook_output list" where
  "OrderBook_except e =
    (if e = SocketStreamClosed then Inr [Connection_Error]
     else if e = ConnectionRefusedError then Inr [Connection_Refused]
     else if is_Exception e then Inr [Unexpected_Error]
     else Inl e)"

text \<open>
  The outer \<^verbatim>\<open>while True\<close> of \<^verbatim>\<open>run_orderbook\<close>.  \<open>recv_buffer\<close> is the global variable,
  which keeps its value from one connection to the next until it is assigned.
\<close>

fun OrderBook_connect_loop ::
    "'f float_ops \<Rightarrow> pystr list \<Rightarrow> SharedPriceBook \<Rightarrow> bytes \<Rightarrow> connect_outcome list
      \<Rightarrow> 'f shm_world \<Rightarrow> 'f shm_world \<times> orderbook_output list \<times> process_state" where
  "OrderBook_connect_loop fl syms shm_book recv_buffer [] w = (w, [], Running)"
| "OrderBook_connect_loop fl syms shm_book recv_buffer (ConnectRaises e # net) w =
    (case OrderBook_except e of
       Inl e' \<Rightarrow> (w, [Attempting_to_connect], Died e')
     | Inr out \<Rightarrow>
         (case OrderBook_connect_loop fl syms shm_book recv_buffer net w of
            (w', outs, st) \<Rightarrow> (w', Attempting_to_connect # out @ outs, st)))"
| "OrderBook_connect_loop fl syms shm_book recv_buffer (Connects sock # net) w =
    (case OrderBook_receive_loop fl syms shm_book [] sock w of
       (w', outs, Blocks) \<Rightarrow> (w', Attempting_to_connect # Connected # outs, Waiting_in_recv)
     | (w', outs, Raises e recv_buffer') \<Rightarrow>
         (case OrderBook_except e of
            Inl e' \<Rightarrow> (w', Attempting_to_connect # Connected # outs, Died e')
          | Inr out \<Rightarrow>
              (case OrderBook_connect_loop fl syms shm_book recv_buffer' net w' of
                 (w'', outs', st) \<Rightarrow>
                   (w'', Attempting_to_connect # Connected # outs @ out @ outs', st))))"

text \<open>\<^verbatim>\<open>run_orderbook\<close>, started with the module's initial \<^verbatim>\<open>recv_buffer = b''\<close>.\<close>

definition run_orderbook ::
    "'f float_ops \<Rightarrow> pystr \<Rightarrow> pystr list \<Rightarrow> connect_outcome list \<Rightarrow> 'f shm_world
      \<Rightarrow> 'f shm_world \<times> orderbook_output list \<times> process_state" where
  "run_orderbook fl nm syms net w =
    (case SharedPriceBook_init fl syms nm False w of
       Inl e \<Rightarrow> if e = FileNotFoundError then (w, [Fatal_not_found], Returned) else (w, [], Died e)
     | Inr (shm_book, w') \<Rightarrow> OrderBook_connect_loop fl syms shm_book [] net w')"

section \<open>An instance of the floating-point operations\<close>

text \<open>
  Exact arithmetic on rational numbers, reading plain decimal literals (an optional sign,
  digits, an optional point and more digits).  It serves to run the definitions on
  concrete inputs.
\<close>

fun digits_to_nat :: "pystr \<Rightarrow> nat \<Rightarrow> nat option" where
  "digits_to_nat [] acc = Some acc"
| "digits_to_nat (c # cs) acc =
    (if 48 \<le> c \<and> c \<le> 57 then digits_to_nat cs (10 * acc + (c - 48)) else None)"

definition decimal_of_str :: "pystr \<Rightarrow> rat option" where
  "decimal_of_str s =
    (let negative = (take 1 s = [45]);
         body = (if take 1 s = [45] \<or> take 1 s = [43] then drop 1 s else s);
         int_part = takeWhile (\<lambda>c. c \<noteq> 46) body;
         frac_part = drop 1 (dropWhile (\<lambda>c. c \<noteq> 46) body)
     in if int_part = [] \<and> frac_part = [] then None
        else case (digits_to_nat int_part 0, digits_to_nat frac_part 0) of
               (Some i, Some f) \<Rightarrow>
                 Some ((if negative then - 1 else 1)
                       * (of_nat i + of_nat f / 10 ^ length frac_part))
             | _ \<Rightarrow> None)"

definition exact_ops :: "rat float_ops" where
  "exact_ops =
    \<lparr>float_of_str = decimal_of_str, float_zero = 0, float_eq = (=), float_less = (<),
     float_mean = (\<lambda>xs. sum_list xs / of_nat (length xs))\<rparr>"

section \<open>JSON values\<close>

text \<open>
  The \<^verbatim>\<open>json\<close> module and the operations the programs apply to a decoded value are taken
  as a record over the type \<open>'j\<close> of decoded values: \<^verbatim>\<open>json.loads\<close> on a \<^verbatim>\<open>str\<close>, the line
  that the f-string of the order manager makes of a decoded order (or the exception of a
  missing key or of a value its format does not take), and the comparisons \<^verbatim>\<open>v > n\<close> and
  \<^verbatim>\<open>v < n\<close> with an \<^verbatim>\<open>int\<close>, which raise \<^verbatim>\<open>TypeError\<close> on a value that is not a number.
\<close>

record 'j json_ops =
  json_loads :: "pystr \<Rightarrow> py_exception + 'j"
  order_line :: "'j \<Rightarrow> py_exception + pystr"
  greater_than :: "'j \<Rightarrow> int \<Rightarrow> py_exception + bool"
  less_than :: "'j \<Rightarrow> int \<Rightarrow> py_exception + bool"

text \<open>
  An instance for running the definitions: the JSON texts that are integers, written
  in decimal digits with an optional minus sign.  An integer is not an order.
\<close>

definition int_of_json :: "pystr \<Rightarrow> py_exception + int" where
  "int_of_json s =
    (let digits = (if take 1 s = [45] then drop 1 s else s)
     in if digits = [] \<or> (take 1 digits = [48] \<and> length digits \<noteq> 1) then Inl JSONDecodeError
        else case digits_to_nat digits 0 of
               None \<Rightarrow> Inl JSONDecodeError
             | Some n \<Rightarrow> Inr (if take 1 s = [45] then - int n else int n))"

definition integer_json :: "int json_ops" where
  "integer_json =
    \<lparr>json_loads = int_of_json, order_line = (\<lambda>v. Inl TypeError),
     greater_than = (\<lambda>v n. Inr (n < v)), less_than = (\<lambda>v n. Inr (v < n))\<rparr>"

section \<open>The order sink (\<^verbatim>\<open>OrderManager.py\<close>)\<close>

datatype ordermanager_output =
    Failed_to_start
  | Listening
  | Accepted
  | Executed pystr
  | Client_disconnected
  | Serialization_Error
  | Unexpected_error

lemma OrderManager_receive_consumes:
  "OrderManager_receive_framed_message recv_buffer sock = Some (r, recv_buffer', sock') \<Longrightarrow>
   length recv_buffer' + pending sock' < length recv_buffer + pending sock"
proof (induction recv_buffer sock rule: OrderManager_receive_framed_message.induct)
  case (1 recv_buffer)
  then show ?case
    by (auto split: option.splits dest: split_buffer_shorter)
next
  case (2 recv_buffer chunk sock)
  show ?case
  proof (cases "split_buffer recv_buffer")
    case None
    with "2.prems" "2.IH" show ?thesis
      by (auto split: if_splits)
  next
    case (Some found)
    with "2.prems" show ?thesis
      by (auto split: option.splits prod.splits dest: split_buffer_shorter)
  qed
next
  case (3 recv_buffer e sock)
  then show ?case
    by (auto split: option.splits prod.splits dest: split_buffer_shorter)
qed

text \<open>
  The inner \<^verbatim>\<open>while True\<close> of \<^verbatim>\<open>run_ordermanager\<close>.  It has no \<^verbatim>\<open>try\<close> of its own: an
  exception of \<^verbatim>\<open>json.loads\<close> or of the \<^verbatim>\<open>print\<close> leaves the loop.
\<close>

function OrderManager_receive_loop ::
    "'j json_ops \<Rightarrow> bytes \<Rightarrow> socket \<Rightarrow> ordermanager_output list \<times> ending" where
  "OrderManager_receive_loop js recv_buffer sock =
    (case OrderManager_receive_framed_message recv_buffer sock of
       None \<Rightarrow> ([], Blocks)
     | Some (Inl e, recv_buffer', sock') \<Rightarrow> ([], Raises e recv_buffer')
     | Some (Inr raw_order, recv_buffer', sock') \<Rightarrow>
         (case json_loads js raw_order of
            Inl e \<Rightarrow> ([], Raises e recv_buffer')
          | Inr order \<Rightarrow>
              (case order_line js order of
                 Inl e \<Rightarrow> ([], Raises e recv_buffer')
               | Inr line \<Rightarrow>
                   (case OrderManager_receive_loop js recv_buffer' sock' of
                      (outs, end) \<Rightarrow> (Executed line # outs, end)))))"
  by pat_completeness auto
termination
  by (relation "measure (\<lambda>(js, recv_buffer, sock). length recv_buffer + pending sock)")
     (auto dest: OrderManager_receive_consumes)

declare OrderManager_receive_loop.simps [simp del]

text \<open>The three \<^verbatim>\<open>except\<close> clauses of the outer \<^verbatim>\<open>while True\<close>.\<close>

definition OrderManager_except :: "py_exception \<Rightarrow> py_exception + ordermanager_output list" where
  "OrderManager_except e =
    (if e = ConnectionResetError then Inr [Client_disconnected]
     else if e = JSONDecodeError then Inr [Serialization_Error]
     else if is_Exception e then Inr [Unexpected_error]
     else Inl e)"

text \<open>
  The outer \<^verbatim>\<open>while True\<close>, over the outcomes of the successive \<^verbatim>\<open>accept\<close> calls.
  \<open>recv_buffer\<close> is the global variable.
\<close>

fun OrderManager_accept_loop ::
    "'j json_ops \<Rightarrow> bytes \<Rightarrow> connect_outcome list
      \<Rightarrow> ordermanager_output list \<times> process_state" where
  "OrderManager_accept_loop js recv_buffer [] = ([], Running)"
| "OrderManager_accept_loop js recv_buffer (ConnectRaises e # net) =
    (case OrderManager_except e of
       Inl e' \<Rightarrow> ([], Died e')
     | Inr out \<Rightarrow>
         (case OrderManager_accept_loop js recv_buffer net of
            (outs, st) \<Rightarrow> (out @ outs, st)))"
| "OrderManager_accept_loop js recv_buffer (Connects sock # net) =
    (case OrderManager_receive_loop js [] sock of
       (outs, Blocks) \<Rightarrow> (Accepted # outs, Waiting_in_recv)
     | (outs, Raises e recv_buffer') \<Rightarrow>
         (case OrderManager_except e of
            Inl e' \<Rightarrow> (Accepted # outs, Died e')
          | Inr out \<Rightarrow>
              (case OrderManager_accept_loop js recv_buffer' net of
                 (outs', st) \<Rightarrow> (Accepted # outs @ out @ outs', st))))"

text \<open>
  \<^verbatim>\<open>run_ordermanager\<close>; \<open>bind_error\<close> is the exception of \<^verbatim>\<open>bind\<close> or \<^verbatim>\<open>listen\<close>, if any.
\<close>

definition run_ordermanager ::
    "'j json_ops \<Rightarrow> py_exception option \<Rightarrow> connect_outcome list
      \<Rightarrow> ordermanager_output list \<times> process_state" where
  "run_ordermanager js bind_error net =
    (case bind_error of
       Some e \<Rightarrow> if is_Exception e then ([Failed_to_start], Returned) else ([], Died e)
     | None \<Rightarrow>
         (case OrderManager_accept_loop js [] net of
            (outs, st) \<Rightarrow> (Listening # outs, st)))"

section \<open>The strategy (\<^verbatim>\<open>Strategy.py\<close>)\<close>

definition BULLISH_THRESHOLD :: int where "BULLISH_THRESHOLD = 70"
definition BEARISH_THRESHOLD :: int where "BEARISH_THRESHOLD = 30"
definition SHORT_WINDOW :: nat where "SHORT_WINDOW = 5"
definition LONG_WINDOW :: nat where "LONG_WINDOW = 20"
definition MAX_HISTORY :: nat where "MAX_HISTORY = LONG_WINDOW * 2"

text \<open>The strings \<^verbatim>\<open>'BUY'\<close>, \<^verbatim>\<open>'SELL'\<close>, \<^verbatim>\<open>'NEUTRAL'\<close> and \<^verbatim>\<open>'NONE'\<close>, \<^verbatim>\<open>'LONG'\<close>, \<^verbatim>\<open>'SHORT'\<close>.\<close>

datatype signal = BUY | SELL | NEUTRAL

datatype position = NONE | LONG | SHORT

text \<open>The order dict, without its \<^verbatim>\<open>timestamp\<close>, which is the reading of the clock.\<close>

record 'f order =
  order_id :: int
  order_symbol :: pystr
  order_side :: signal
  order_quantity :: int
  order_price :: 'f

record 'f StrategyState =
  price_history :: "(pystr \<times> 'f list) list"
  position :: "(pystr \<times> position) list"
  order_counter :: int

definition StrategyState_init :: "pystr list \<Rightarrow> 'f StrategyState" where
  "StrategyState_init syms =
    \<lparr>price_history = dict_of (map (\<lambda>symbol. (symbol, [])) syms),
     position = dict_of (map (\<lambda>symbol. (symbol, NONE)) syms),
     order_counter = 1\<rparr>"

text \<open>\<^verbatim>\<open>append\<close> on a \<^verbatim>\<open>deque(maxlen=MAX_HISTORY)\<close>: a full deque drops its oldest element.\<close>

definition deque_append :: "'a list \<Rightarrow> 'a \<Rightarrow> 'a list" where
  "deque_append history x =
    (if length history < MAX_HISTORY then history @ [x] else drop 1 history @ [x])"

text \<open>
  \<^verbatim>\<open>update_price_history\<close>; a symbol that is not a key raises \<^verbatim>\<open>KeyError\<close> and the prices
  appended before stay.
\<close>

fun update_price_history ::
    "'f float_ops \<Rightarrow> 'f StrategyState \<Rightarrow> (pystr \<times> 'f) list
      \<Rightarrow> py_exception option \<times> 'f StrategyState" where
  "update_price_history fl self [] = (None, self)"
| "update_price_history fl self ((symbol, p) # ticks) =
    (if float_less fl (float_zero fl) p then
       (case map_of (price_history self) symbol of
          None \<Rightarrow> (Some KeyError, self)
        | Some history \<Rightarrow>
            update_price_history fl
              (self\<lparr>price_history :=
                  AList.update symbol (deque_append history p) (price_history self)\<rparr>)
              ticks)
     else update_price_history fl self ticks)"

text \<open>
  \<^verbatim>\<open>get_ma\<close>; the inner \<open>None\<close> is Python's \<^verbatim>\<open>None\<close>.  The slice \<^verbatim>\<open>history[-window:]\<close>
  is the last \<open>window\<close> elements, and the whole list when \<open>window\<close> is zero.
\<close>

definition get_ma ::
    "'f float_ops \<Rightarrow> 'f StrategyState \<Rightarrow> pystr \<Rightarrow> nat \<Rightarrow> py_exception + 'f option" where
  "get_ma fl self symbol window =
    (case map_of (price_history self) symbol of
       None \<Rightarrow> Inl KeyError
     | Some history \<Rightarrow>
         if length history < window then Inr None
         else Inr (Some (float_mean fl
                 (if window = 0 then history
                  else drop (length history - window) history))))"

text \<open>The truth value of a float: it is not equal to zero.\<close>

definition truthy :: "'f float_ops \<Rightarrow> 'f \<Rightarrow> bool" where
  "truthy fl x = (\<not> float_eq fl x (float_zero fl))"

definition price_signal_of :: "'f float_ops \<Rightarrow> 'f option \<Rightarrow> 'f option \<Rightarrow> signal" where
  "price_signal_of fl short_ma long_ma =
    (case (short_ma, long_ma) of
       (Some s, Some l) \<Rightarrow>
         if truthy fl s \<and> truthy fl l then
           (if float_less fl l s then BUY
            else if float_less fl s l then SELL
            else NEUTRAL)
         else NEUTRAL
     | _ \<Rightarrow> NEUTRAL)"

definition news_signal_of :: "'j json_ops \<Rightarrow> 'j \<Rightarrow> py_exception + signal" where
  "news_signal_of js sentiment =
    (case greater_than js sentiment BULLISH_THRESHOLD of
       Inl e \<Rightarrow> Inl e
     | Inr True \<Rightarrow> Inr BUY
     | Inr False \<Rightarrow>
         (case less_than js sentiment BEARISH_THRESHOLD of
            Inl e \<Rightarrow> Inl e
          | Inr True \<Rightarrow> Inr SELL
          | Inr False \<Rightarrow> Inr NEUTRAL))"

definition final_signal_of :: "signal \<Rightarrow> signal \<Rightarrow> signal" where
  "final_signal_of price_signal news_signal =
    (if price_signal = BUY \<and> news_signal = BUY then BUY
     else if price_signal = SELL \<and> news_signal = SELL then SELL
     else NEUTRAL)"

text \<open>
  Part D of the loop body.  The order is handed to \<^verbatim>\<open>_send_order\<close>, which catches every
  exception of its own, and the position and the counter are set after it.  The second
  component of the result lists the orders handed to \<^verbatim>\<open>_send_order\<close>.
\<close>

definition generate_order ::
    "'f StrategyState \<Rightarrow> pystr \<Rightarrow> 'f \<Rightarrow> signal
      \<Rightarrow> py_exception + ('f StrategyState \<times> 'f order list)" where
  "generate_order self symbol current_price final_signal =
    (if final_signal = BUY then
       (case map_of (position self) symbol of
          None \<Rightarrow> Inl KeyError
        | Some held \<Rightarrow>
            if held \<noteq> LONG then
              Inr (self\<lparr>position := AList.update symbol LONG (position self),
                        order_counter := order_counter self + 1\<rparr>,
                   [\<lparr>order_id = order_counter self, order_symbol = symbol, order_side = BUY,
                     order_quantity = 10, order_price = current_price\<rparr>])
            else Inr (self, []))
     else if final_signal = SELL then
       (case map_of (position self) symbol of
          None \<Rightarrow> Inl KeyError
        | Some held \<Rightarrow>
            if held \<noteq> SHORT then
              Inr (self\<lparr>position := AList.update symbol SHORT (position self),
                        order_counter := order_counter self + 1\<rparr>,
                   [\<lparr>order_id = order_counter self, order_symbol = symbol, order_side = SELL,
                     order_quantity = 10, order_price = current_price\<rparr>])
            else Inr (self, []))
     else Inr (self, []))"

text \<open>Parts C and D for one symbol whose price is not zero.\<close>

definition trade_symbol ::
    "'f float_ops \<Rightarrow> 'j json_ops \<Rightarrow> 'j \<Rightarrow> 'f StrategyState \<Rightarrow> pystr \<Rightarrow> 'f
      \<Rightarrow> py_exception + ('f StrategyState \<times> 'f order list)" where
  "trade_symbol fl js sentiment self symbol current_price =
    (case get_ma fl self symbol SHORT_WINDOW of
       Inl e \<Rightarrow> Inl e
     | Inr short_ma \<Rightarrow>
         (case get_ma fl self symbol LONG_WINDOW of
            Inl e \<Rightarrow> Inl e
          | Inr long_ma \<Rightarrow>
              (case news_signal_of js sentiment of
                 Inl e \<Rightarrow> Inl e
               | Inr news_signal \<Rightarrow>
                   generate_order self symbol current_price
                     (final_signal_of (price_signal_of fl short_ma long_ma) news_signal))))"

text \<open>The loop \<^verbatim>\<open>for symbol, current_price in current_ticks.items()\<close>.\<close>

fun trade_symbols ::
    "'f float_ops \<Rightarrow> 'j json_ops \<Rightarrow> 'j \<Rightarrow> 'f StrategyState \<Rightarrow> (pystr \<times> 'f) list
      \<Rightarrow> py_exception option \<times> 'f StrategyState \<times> 'f order list" where
  "trade_symbols fl js sentiment self [] = (None, self, [])"
| "trade_symbols fl js sentiment self ((symbol, current_price) # ticks) =
    (if float_eq fl current_price (float_zero fl) then trade_symbols fl js sentiment self ticks
     else
       (case trade_symbol fl js sentiment self symbol current_price of
          Inl e \<Rightarrow> (Some e, self, [])
        | Inr (self', orders) \<Rightarrow>
            (case trade_symbols fl js sentiment self' ticks of
               (e, self'', orders') \<Rightarrow> (e, self'', orders @ orders'))))"

text \<open>Parts B to D: one pass of the strategy loop after a news message was decoded.\<close>

definition strategy_tick ::
    "'f float_ops \<Rightarrow> 'j json_ops \<Rightarrow> SharedPriceBook \<Rightarrow> 'j \<Rightarrow> 'f shm_world \<Rightarrow> 'f StrategyState
      \<Rightarrow> py_exception option \<times> 'f StrategyState \<times> 'f order list" where
  "strategy_tick fl js shm_book sentiment w self =
    (case read_all shm_book w of
       Inl e \<Rightarrow> (Some e, self, [])
     | Inr current_ticks \<Rightarrow>
         (case update_price_history fl self current_ticks of
            (Some e, self') \<Rightarrow> (Some e, self', [])
          | (None, self') \<Rightarrow> trade_symbols fl js sentiment self' current_ticks))"

lemma news_receive_consumes:
  "receive_framed_news_message recv_buffer sock = Some (r, recv_buffer', sock') \<Longrightarrow>
   length recv_buffer' + pending sock' < length recv_buffer + pending sock"
proof (induction recv_buffer sock rule: receive_framed_news_message.induct)
  case (1 recv_buffer)
  then show ?case
    by (auto split: option.splits dest: split_buffer_shorter)
next
  case (2 recv_buffer chunk sock)
  show ?case
  proof (cases "split_buffer recv_buffer")
    case None
    with "2.prems" "2.IH" show ?thesis
      by (auto split: if_splits)
  next
    case (Some found)
    with "2.prems" show ?thesis
      by (auto split: option.splits prod.splits dest: split_buffer_shorter)
  qed
next
  case (3 recv_buffer e sock)
  then show ?case
    by (auto split: option.splits prod.splits dest: split_buffer_shorter)
qed

text \<open>
  The strategy execution loop on one news connection.  The shared memory is written by
  another process; \<open>table_at n\<close> is what it holds when the strategy reads it for the
  \<open>n\<close>-th time.  The result is the state, the number of reads so far, the orders handed
  to \<^verbatim>\<open>_send_order\<close> and the way the loop ends.
\<close>

function Strategy_receive_loop ::
    "'f float_ops \<Rightarrow> 'j json_ops \<Rightarrow> SharedPriceBook \<Rightarrow> (nat \<Rightarrow> 'f shm_world) \<Rightarrow> bytes \<Rightarrow> socket
      \<Rightarrow> 'f StrategyState \<Rightarrow> nat \<Rightarrow> 'f StrategyState \<times> nat \<times> 'f order list \<times> ending" where
  "Strategy_receive_loop fl js shm_book table_at news_recv_buffer sock self n =
    (case receive_framed_news_message news_recv_buffer sock of
       None \<Rightarrow> (self, n, [], Blocks)
     | Some (Inl e, news_recv_buffer', sock') \<Rightarrow>
         (self, n, [], Raises SocketStreamClosed news_recv_buffer')
     | Some (Inr raw_news, news_recv_buffer', sock') \<Rightarrow>
         (case json_loads js raw_news of
            Inl e \<Rightarrow> (self, n, [], Raises e news_recv_buffer')
          | Inr sentiment \<Rightarrow>
              (case strategy_tick fl js shm_book sentiment (table_at n) self of
                 (Some e, self', orders) \<Rightarrow> (self', Suc n, orders, Raises e news_recv_buffer')
               | (None, self', orders) \<Rightarrow>
                   (case Strategy_receive_loop fl js shm_book table_at news_recv_buffer' sock'
                           self' (Suc n) of
                      (self'', n', orders', end) \<Rightarrow> (self'', n', orders @ orders', end)))))"
  by pat_completeness auto
termination
  by (relation "measure (\<lambda>(fl, js, shm_book, table_at, news_recv_buffer, sock, self, n).
        length news_recv_buffer + pending sock)")
     (auto dest: news_receive_consumes)

declare Strategy_receive_loop.simps [simp del]

text \<open>
  The main loop of \<^verbatim>\<open>run_strategy\<close>.  \<open>om_net\<close> lists the outcomes of the successive
  \<^verbatim>\<open>connect\<close> calls on the socket of the order manager (\<open>None\<close> is success), \<open>news_net\<close>
  those on the news sockets.  Every exception ends the pass and the loop goes on.
\<close>

fun Strategy_connect_loop ::
    "'f float_ops \<Rightarrow> 'j json_ops \<Rightarrow> SharedPriceBook \<Rightarrow> (nat \<Rightarrow> 'f shm_world) \<Rightarrow> bytes \<Rightarrow> bool
      \<Rightarrow> py_exception option list \<Rightarrow> connect_outcome list \<Rightarrow> 'f StrategyState \<Rightarrow> nat
      \<Rightarrow> 'f order list \<times> process_state" where
  "Strategy_connect_loop fl js shm_book table_at news_recv_buffer False [] news_net self n =
    ([], Running)"
| "Strategy_connect_loop fl js shm_book table_at news_recv_buffer False (Some e # om_net)
      news_net self n =
    (if is_Exception e
     then Strategy_connect_loop fl js shm_book table_at news_recv_buffer False om_net
            news_net self n
     else ([], Died e))"
| "Strategy_connect_loop fl js shm_book table_at news_recv_buffer False (None # om_net)
      news_net self n =
    Strategy_connect_loop fl js shm_book table_at news_recv_buffer True om_net news_net self n"
| "Strategy_connect_loop fl js shm_book table_at news_recv_buffer True om_net [] self n =
    ([], Running)"
| "Strategy_connect_loop fl js shm_book table_at news_recv_buffer True om_net
      (ConnectRaises e # news_net) self n =
    (if is_Exception e
     then Strategy_connect_loop fl js shm_book table_at news_recv_buffer True om_net
            news_net self n
     else ([], Died e))"
| "Strategy_connect_loop fl js shm_book table_at news_recv_buffer True om_net
      (Connects sock # news_net) self n =
    (case Strategy_receive_loop fl js shm_book table_at [] sock self n of
       (self', n', orders, Blocks) \<Rightarrow> (orders, Waiting_in_recv)
     | (self', n', orders, Raises e news_recv_buffer') \<Rightarrow>
         if is_Exception e then
           (case Strategy_connect_loop fl js shm_book table_at news_recv_buffer' True om_net
                   news_net self' n' of
              (orders', st) \<Rightarrow> (orders @ orders', st))
         else (orders, Died e))"

text \<open>\<^verbatim>\<open>run_strategy\<close>: the orders handed to \<^verbatim>\<open>_send_order\<close>, in order, and the way it ends.\<close>

definition run_strategy ::
    "'f float_ops \<Rightarrow> 'j json_ops \<Rightarrow> pystr \<Rightarrow> pystr list \<Rightarrow> (nat \<Rightarrow> 'f shm_world)
      \<Rightarrow> py_exception option list \<Rightarrow> connect_outcome list \<Rightarrow> 'f shm_world
      \<Rightarrow> 'f order list \<times> process_state" where
  "run_strategy fl js nm syms table_at om_net news_net w =
    (case SharedPriceBook_init fl syms nm False w of
       Inl e \<Rightarrow> if e = FileNotFoundError then ([], Returned) else ([], Died e)
     | Inr (shm_book, w') \<Rightarrow>
         Strategy_connect_loop fl js shm_book table_at [] False om_net news_net
           (StrategyState_init syms) 0)"

subsection \<open>The sides of the orders of one symbol\<close>

definition sides_of :: "pystr \<Rightarrow> 'f order list \<Rightarrow> signal list" where
  "sides_of symbol orders = map order_side (filter (\<lambda>order. order_symbol order = symbol) orders)"

text \<open>The side that the recorded position of a symbol stands for.\<close>

definition held_side :: "(pystr \<times> position) list \<Rightarrow> pystr \<Rightarrow> signal" where
  "held_side positions symbol =
    (case map_of positions symbol of
       Some LONG \<Rightarrow> BUY
     | Some SHORT \<Rightarrow> SELL
     | _ \<Rightarrow> NEUTRAL)"

text \<open>
  What links the orders of a stretch of the run to the positions before and after it:
  the sides of the symbol's orders are BUY or SELL and no two in a row are the same;
  the first is not the side the position stood for, the position after stands for the
  last; without an order the position stands for the same side as before.
\<close>

definition follows ::
    "(pystr \<times> position) list \<Rightarrow> 'f order list \<Rightarrow> (pystr \<times> position) list \<Rightarrow> pystr \<Rightarrow> bool" where
  "follows before orders after symbol =
    (distinct_adj (sides_of symbol orders) \<and> NEUTRAL \<notin> set (sides_of symbol orders)
     \<and> (if sides_of symbol orders = [] then held_side after symbol = held_side before symbol
        else hd (sides_of symbol orders) \<noteq> held_side before symbol
             \<and> held_side after symbol = last (sides_of symbol orders)))"

section \<open>Orders on the wire (\<^verbatim>\<open>json.dumps\<close>, \<^verbatim>\<open>_send_order\<close>, \<^verbatim>\<open>json.loads\<close>)\<close>

text \<open>
  What follows models the \<^verbatim>\<open>json\<close> module of the standard library, with its default
  options, as its documentation and its encoder and scanner describe it, on the order
  dict of \<^verbatim>\<open>run_strategy\<close>.
\<close>

subsection \<open>Floats and integers as text\<close>

text \<open>
  Further operations on floats: \<^verbatim>\<open>float.__repr__\<close> and the values \<^verbatim>\<open>float('nan')\<close>,
  \<^verbatim>\<open>float('inf')\<close> and \<^verbatim>\<open>float('-inf')\<close>.
\<close>

record 'f json_float_ops = "'f float_ops" +
  float_repr :: "'f \<Rightarrow> pystr"
  float_nan :: 'f
  float_inf :: 'f
  float_neg_inf :: 'f

text \<open>The decimal digits of a natural number, as \<^verbatim>\<open>int.__repr__\<close> writes them.\<close>

function dec_digits :: "nat \<Rightarrow> pystr" where
  "dec_digits n = (if n < 10 then [48 + n] else dec_digits (n div 10) @ [48 + n mod 10])"
  by pat_completeness auto
termination
  by (relation "measure id") auto

declare dec_digits.simps [simp del]

text \<open>
  \<^verbatim>\<open>int.__repr__\<close>.  The interpreter refuses, with \<^verbatim>\<open>ValueError\<close>, to convert between
  \<^verbatim>\<open>int\<close> and \<^verbatim>\<open>str\<close> a number of more than \<open>max_str_digits\<close> decimal digits
  (\<^verbatim>\<open>sys.get_int_max_str_digits()\<close>, 4300 unless set otherwise; zero is no limit).
\<close>

definition int_repr :: "nat \<Rightarrow> int \<Rightarrow> py_exception + pystr" where
  "int_repr max_str_digits i =
    (if max_str_digits \<noteq> 0 \<and> max_str_digits < length (dec_digits (nat \<bar>i\<bar>))
     then Inl ValueError
     else Inr ((if i < 0 then [45] else []) @ dec_digits (nat \<bar>i\<bar>)))"

text \<open>\<^verbatim>\<open>int(numstr)\<close> on an optional minus sign and digits.\<close>

definition int_of_numstr :: "nat \<Rightarrow> pystr \<Rightarrow> py_exception + int" where
  "int_of_numstr max_str_digits numstr =
    (let digits = (if take 1 numstr = [45] then drop 1 numstr else numstr)
     in if max_str_digits \<noteq> 0 \<and> max_str_digits < length digits then Inl ValueError
        else case digits_to_nat digits 0 of
               None \<Rightarrow> Inl ValueError
             | Some n \<Rightarrow> Inr (if take 1 numstr = [45] then - int n else int n))"

subsection \<open>The encoder\<close>

definition hex_digit :: "nat \<Rightarrow> nat" where
  "hex_digit d = (if d < 10 then 48 + d else 87 + d)"

text \<open>\<^verbatim>\<open>'\\u{0:04x}'.format(n)\<close> for \<open>n\<close> below \<open>0x10000\<close>.\<close>

definition u_escape :: "nat \<Rightarrow> pystr" where
  "u_escape n =
    [92, 117, hex_digit (n div 4096), hex_digit (n div 256 mod 16),
     hex_digit (n div 16 mod 16), hex_digit (n mod 16)]"

text \<open>
  What \<^verbatim>\<open>ensure_ascii\<close> makes of one character: the printable ASCII characters stand
  for themselves, except the quote and the backslash; a character beyond the basic plane
  becomes a pair of surrogates.
\<close>

definition escape_char :: "nat \<Rightarrow> pystr" where
  "escape_char c =
    (if c = 92 then [92, 92]
     else if c = 34 then [92, 34]
     else if c = 8 then [92, 98]
     else if c = 12 then [92, 102]
     else if c = 10 then [92, 110]
     else if c = 13 then [92, 114]
     else if c = 9 then [92, 116]
     else if 32 \<le> c \<and> c \<le> 126 then [c]
     else if c < 0x10000 then u_escape c
     else u_escape (0xD800 + (c - 0x10000) div 1024 mod 1024)
          @ u_escape (0xDC00 + (c - 0x10000) mod 1024))"

definition encode_basestring_ascii :: "pystr \<Rightarrow> pystr" where
  "encode_basestring_ascii s = [34] @ concat (map escape_char s) @ [34]"

text \<open>\<^verbatim>\<open>floatstr\<close> of the encoder, with \<^verbatim>\<open>allow_nan\<close>.\<close>

definition floatstr :: "'f json_float_ops \<Rightarrow> 'f \<Rightarrow> pystr" where
  "floatstr fl x =
    (if \<not> float_eq fl x x then str ''NaN''
     else if float_eq fl x (float_inf fl) then str ''Infinity''
     else if float_eq fl x (float_neg_inf fl) then str ''-Infinity''
     else float_repr fl x)"

text \<open>The members of an object, already encoded, joined by the two separators.\<close>

fun join_items :: "(pystr \<times> pystr) list \<Rightarrow> pystr" where
  "join_items [] = []"
| "join_items [(k, v)] = encode_basestring_ascii k @ str '': '' @ v"
| "join_items ((k, v) # item # items) =
    encode_basestring_ascii k @ str '': '' @ v @ str '', '' @ join_items (item # items)"

text \<open>The order dict of \<^verbatim>\<open>run_strategy\<close>, with its timestamp.\<close>

record 'f sent_order = "'f order" +
  order_timestamp :: 'f

definition side_str :: "signal \<Rightarrow> pystr" where
  "side_str s = (case s of BUY \<Rightarrow> str ''BUY'' | SELL \<Rightarrow> str ''SELL'' | NEUTRAL \<Rightarrow> str ''NEUTRAL'')"

text \<open>\<^verbatim>\<open>json.dumps(order)\<close>: the keys in the order of the dict display.\<close>

definition json_dumps_order ::
    "nat \<Rightarrow> 'f json_float_ops \<Rightarrow> 'f sent_order \<Rightarrow> py_exception + pystr" where
  "json_dumps_order max_str_digits fl order =
    (case int_repr max_str_digits (order_id order) of
       Inl e \<Rightarrow> Inl e
     | Inr id_text \<Rightarrow>
         (case int_repr max_str_digits (order_quantity order) of
            Inl e \<Rightarrow> Inl e
          | Inr quantity_text \<Rightarrow>
              Inr ([123]
                   @ join_items
                       [(str ''order_id'', id_text),
                        (str ''symbol'', encode_basestring_ascii (order_symbol order)),
                        (str ''side'', encode_basestring_ascii (side_str (order_side order))),
                        (str ''quantity'', quantity_text),
                        (str ''price'', floatstr fl (order_price order)),
                        (str ''timestamp'', floatstr fl (order_timestamp order))]
                   @ [125])))"

subsection \<open>\<^verbatim>\<open>str.encode('utf-8')\<close> and \<^verbatim>\<open>_send_order\<close>\<close>

text \<open>The bytes of one code point; \<open>None\<close> is \<^verbatim>\<open>UnicodeEncodeError\<close>.\<close>

definition utf8_bytes :: "nat \<Rightarrow> bytes option" where
  "utf8_bytes c =
    (if c < 0x80 then Some [char_of c]
     else if c < 0x800 then Some [char_of (0xC0 + c div 64), char_of (0x80 + c mod 64)]
     else if c < 0x10000 then
       (if 0xD800 \<le> c \<and> c < 0xE000 then None
        else Some [char_of (0xE0 + c div 4096), char_of (0x80 + c div 64 mod 64),
                   char_of (0x80 + c mod 64)])
     else if c < 0x110000 then
       Some [char_of (0xF0 + c div 262144), char_of (0x80 + c div 4096 mod 64),
             char_of (0x80 + c div 64 mod 64), char_of (0x80 + c mod 64)]
     else None)"

fun encode :: "pystr \<Rightarrow> bytes option" where
  "encode [] = Some []"
| "encode (c # cs) =
    (case utf8_bytes c of
       None \<Rightarrow> None
     | Some bs \<Rightarrow> map_option ((@) bs) (encode cs))"

text \<open>
  \<^verbatim>\<open>_send_order\<close>: the bytes handed to \<^verbatim>\<open>sendall\<close>, or the exception that its handler
  prints, in which case nothing is sent.
\<close>

definition send_order ::
    "nat \<Rightarrow> 'f json_float_ops \<Rightarrow> 'f sent_order \<Rightarrow> py_exception + bytes" where
  "send_order max_str_digits fl order =
    (case json_dumps_order max_str_digits fl order of
       Inl e \<Rightarrow> Inl e
     | Inr message_data \<Rightarrow>
         (case encode message_data of
            None \<Rightarrow> Inl UnicodeEncodeError
          | Some data \<Rightarrow> Inr (data @ MESSAGE_DELIMITER)))"

subsection \<open>The scanner\<close>

datatype 'f jvalue =
    JNull
  | JBool bool
  | JInt int
  | JFloat 'f
  | JStr pystr
  | JArr "'f jvalue list"
  | JObj "(pystr \<times> 'f jvalue) list"

definition is_digit :: "nat \<Rightarrow> bool" where
  "is_digit c = (48 \<le> c \<and> c \<le> 57)"

definition is_whitespace :: "nat \<Rightarrow> bool" where
  "is_whitespace c = (c = 32 \<or> c = 9 \<or> c = 10 \<or> c = 13)"

definition skip_whitespace :: "pystr \<Rightarrow> pystr" where
  "skip_whitespace s = dropWhile is_whitespace s"

definition hex_value :: "nat \<Rightarrow> nat option" where
  "hex_value c =
    (if 48 \<le> c \<and> c \<le> 57 then Some (c - 48)
     else if 97 \<le> c \<and> c \<le> 102 then Some (c - 87)
     else if 65 \<le> c \<and> c \<le> 70 then Some (c - 55)
     else None)"

text \<open>
  Four hexadecimal digits with at least one character after them: their value and what
  follows.
\<close>

definition hex4 :: "pystr \<Rightarrow> (nat \<times> pystr) option" where
  "hex4 s =
    (case s of
       a # b # c # d # e # r \<Rightarrow>
         (case (hex_value a, hex_value b, hex_value c, hex_value d) of
            (Some x3, Some x2, Some x1, Some x0) \<Rightarrow>
              Some (x3 * 4096 + x2 * 256 + x1 * 16 + x0, e # r)
          | _ \<Rightarrow> None)
     | _ \<Rightarrow> None)"

definition backslash :: "nat \<Rightarrow> nat option" where
  "backslash c =
    (if c = 34 then Some 34
     else if c = 92 then Some 92
     else if c = 47 then Some 47
     else if c = 98 then Some 8
     else if c = 102 then Some 12
     else if c = 110 then Some 10
     else if c = 114 then Some 13
     else if c = 116 then Some 9
     else None)"

text \<open>
  \<^verbatim>\<open>scanstring\<close> in strict mode, from the character after the opening quote: the string
  and what follows the closing quote.  A high surrogate escape that is directly followed
  by a low surrogate escape makes one character with it.
\<close>

lemma hex4_shorter: "hex4 s = Some (v, r) \<Longrightarrow> length r < length s"
  by (auto simp: hex4_def split: list.splits option.splits)

function scanstring :: "pystr \<Rightarrow> py_exception + (pystr \<times> pystr)" where
  "scanstring [] = Inl JSONDecodeError"
| "scanstring (c # cs) =
    (if c = 34 then Inr ([], cs)
     else if c = 92 then
       (case cs of
          [] \<Rightarrow> Inl JSONDecodeError
        | esc # r \<Rightarrow>
            if esc = 117 then
              (case hex4 r of
                 None \<Rightarrow> Inl JSONDecodeError
               | Some (uni, r1) \<Rightarrow>
                   if 0xD800 \<le> uni \<and> uni \<le> 0xDBFF \<and> take 2 r1 = [92, 117] then
                     (case hex4 (drop 2 r1) of
                        None \<Rightarrow> Inl JSONDecodeError
                      | Some (uni2, r2) \<Rightarrow>
                          if 0xDC00 \<le> uni2 \<and> uni2 \<le> 0xDFFF then
                            (case scanstring r2 of
                               Inl e \<Rightarrow> Inl e
                             | Inr (text, rest) \<Rightarrow>
                                 Inr ((0x10000 + (uni - 0xD800) * 1024 + (uni2 - 0xDC00)) # text,
                                      rest))
                          else
                            (case scanstring r1 of
                               Inl e \<Rightarrow> Inl e
                             | Inr (text, rest) \<Rightarrow> Inr (uni # text, rest)))
                   else
                     (case scanstring r1 of
                        Inl e \<Rightarrow> Inl e
                      | Inr (text, rest) \<Rightarrow> Inr (uni # text, rest)))
            else
              (case backslash esc of
                 None \<Rightarrow> Inl JSONDecodeError
               | Some ch \<Rightarrow>
                   (case scanstring r of
                      Inl e \<Rightarrow> Inl e
                    | Inr (text, rest) \<Rightarrow> Inr (ch # text, rest))))
     else if c < 32 then Inl JSONDecodeError
     else
       (case scanstring cs of
          Inl e \<Rightarrow> Inl e
        | Inr (text, rest) \<Rightarrow> Inr (c # text, rest)))"
  by pat_completeness auto
termination
proof (relation "measure length", goal_cases)
  case 1
  show ?case by simp
next
  case (2 c cs esc r found uni r1 found2 uni2 r2)
  from hex4_shorter [of r uni r1] hex4_shorter [of "drop 2 r1" uni2 r2] 2 show ?case
    by simp
next
  case (3 c cs esc r found uni r1 found2 uni2 r2)
  from hex4_shorter [of r uni r1] 3 show ?case
    by simp
next
  case (4 c cs esc r found uni r1)
  from hex4_shorter [of r uni r1] 4 show ?case
    by simp
next
  case (5 c cs esc r ch)
  then show ?case by simp
next
  case (6 c cs)
  then show ?case by simp
qed

text \<open>
  The scanner of numbers, in the stages of \<^verbatim>\<open>_match_number\<close>.  Each stage takes what is
  left of the text and returns what it leaves.  An optional minus sign:
\<close>

definition after_sign :: "pystr \<Rightarrow> pystr" where
  "after_sign s = (if take 1 s = [45] then drop 1 s else s)"

text \<open>The integer digits: a single zero, or a digit from 1 to 9 and all digits after it.\<close>

definition after_int :: "pystr \<Rightarrow> pystr" where
  "after_int s = (if take 1 s = [48] then drop 1 s else dropWhile is_digit s)"

text \<open>A point that a digit follows, and all digits after it.\<close>

definition has_frac :: "pystr \<Rightarrow> bool" where
  "has_frac s = (case s of c # d # r \<Rightarrow> c = 46 \<and> is_digit d | _ \<Rightarrow> False)"

definition after_frac :: "pystr \<Rightarrow> pystr" where
  "after_frac s = (if has_frac s then dropWhile is_digit (drop 1 s) else s)"

text \<open>
  An exponent: \<^verbatim>\<open>e\<close> or \<^verbatim>\<open>E\<close> that is not the last character, a sign that is not the last
  character, and at least one digit; \<open>None\<close> when there is none, and the scanner goes
  back to before the \<^verbatim>\<open>e\<close>.
\<close>

definition after_exp :: "pystr \<Rightarrow> pystr option" where
  "after_exp s =
    (if (take 1 s = [101] \<or> take 1 s = [69]) \<and> drop 1 s \<noteq> [] then
       (let r = drop 1 s;
            r1 = (if (take 1 r = [43] \<or> take 1 r = [45]) \<and> drop 1 r \<noteq> [] then drop 1 r else r)
        in if r1 \<noteq> [] \<and> is_digit (hd r1) then Some (dropWhile is_digit r1) else None)
     else None)"

text \<open>
  The text of the number, whether it is a float (it has a fraction or an exponent), and
  what follows it; \<open>None\<close> when the text does not start with a number.
\<close>

definition match_number :: "pystr \<Rightarrow> (pystr \<times> bool \<times> pystr) option" where
  "match_number s =
    (if after_sign s = [] \<or> \<not> is_digit (hd (after_sign s)) then None
     else
       (let int_end = after_int (after_sign s);
            frac_end = after_frac int_end;
            rest = (case after_exp frac_end of Some r \<Rightarrow> r | None \<Rightarrow> frac_end)
        in Some (take (length s - length rest) s,
                 has_frac int_end \<or> after_exp frac_end \<noteq> None,
                 rest)))"

text \<open>
  \<^verbatim>\<open>scan_once\<close> with the parsers of objects and arrays.  \<open>parse_object\<close> starts where a key
  is expected and \<open>parse_array\<close> where an item is, each with what it has read so far.  The
  first argument bounds the calls that are still allowed, and \<open>json_loads\<close> starts it above
  the length of the text; \<^verbatim>\<open>RecursionError\<close> is the result when it is used up.
\<close>

fun scan_once ::
    "nat \<Rightarrow> nat \<Rightarrow> 'f json_float_ops \<Rightarrow> pystr \<Rightarrow> py_exception + ('f jvalue \<times> pystr)"
  and parse_object ::
    "nat \<Rightarrow> nat \<Rightarrow> 'f json_float_ops \<Rightarrow> (pystr \<times> 'f jvalue) list \<Rightarrow> pystr
      \<Rightarrow> py_exception + ('f jvalue \<times> pystr)"
  and parse_array ::
    "nat \<Rightarrow> nat \<Rightarrow> 'f json_float_ops \<Rightarrow> 'f jvalue list \<Rightarrow> pystr
      \<Rightarrow> py_exception + ('f jvalue \<times> pystr)" where
  "scan_once 0 max_str_digits fl s = Inl RecursionError"
| "scan_once (Suc n) max_str_digits fl s =
    (case s of
       [] \<Rightarrow> Inl JSONDecodeError
     | c # r \<Rightarrow>
         if c = 34 then
           (case scanstring r of
              Inl e \<Rightarrow> Inl e
            | Inr (text, rest) \<Rightarrow> Inr (JStr text, rest))
         else if c = 123 then
           (case skip_whitespace r of
              [] \<Rightarrow> Inl JSONDecodeError
            | c' # rest \<Rightarrow>
                if c' = 125 then Inr (JObj [], rest)
                else parse_object n max_str_digits fl [] (c' # rest))
         else if c = 91 then
           (case skip_whitespace r of
              [] \<Rightarrow> Inl JSONDecodeError
            | c' # rest \<Rightarrow>
                if c' = 93 then Inr (JArr [], rest)
                else parse_array n max_str_digits fl [] (c' # rest))
         else if startswith s (str ''null'') then Inr (JNull, drop 4 s)
         else if startswith s (str ''true'') then Inr (JBool True, drop 4 s)
         else if startswith s (str ''false'') then Inr (JBool False, drop 5 s)
         else if startswith s (str ''NaN'') then Inr (JFloat (float_nan fl), drop 3 s)
         else if startswith s (str ''Infinity'') then Inr (JFloat (float_inf fl), drop 8 s)
         else if startswith s (str ''-Infinity'') then Inr (JFloat (float_neg_inf fl), drop 9 s)
         else
           (case match_number s of
              None \<Rightarrow> Inl JSONDecodeError
            | Some (numstr, is_float, rest) \<Rightarrow>
                if is_float then
                  (case float_of_str fl numstr of
                     None \<Rightarrow> Inl ValueError
                   | Some x \<Rightarrow> Inr (JFloat x, rest))
                else
                  (case int_of_numstr max_str_digits numstr of
                     Inl e \<Rightarrow> Inl e
                   | Inr i \<Rightarrow> Inr (JInt i, rest))))"
| "parse_object 0 max_str_digits fl pairs s = Inl RecursionError"
| "parse_object (Suc n) max_str_digits fl pairs s =
    (case s of
       [] \<Rightarrow> Inl JSONDecodeError
     | c # r \<Rightarrow>
         if c \<noteq> 34 then Inl JSONDecodeError
         else
           (case scanstring r of
              Inl e \<Rightarrow> Inl e
            | Inr (key, r1) \<Rightarrow>
                (case skip_whitespace r1 of
                   [] \<Rightarrow> Inl JSONDecodeError
                 | colon # r2 \<Rightarrow>
                     if colon \<noteq> 58 then Inl JSONDecodeError
                     else
                       (case scan_once n max_str_digits fl (skip_whitespace r2) of
                          Inl e \<Rightarrow> Inl e
                        | Inr (val, r3) \<Rightarrow>
                            (case skip_whitespace r3 of
                               [] \<Rightarrow> Inl JSONDecodeError
                             | d # r4 \<Rightarrow>
                                 if d = 125 then Inr (JObj (AList.update key val pairs), r4)
                                 else if d = 44 then
                                   parse_object n max_str_digits fl
                                     (AList.update key val pairs) (skip_whitespace r4)
                                 else Inl JSONDecodeError)))))"
| "parse_array 0 max_str_digits fl items s = Inl RecursionError"
| "parse_array (Suc n) max_str_digits fl items s =
    (case scan_once n max_str_digits fl s of
       Inl e \<Rightarrow> Inl e
     | Inr (val, r1) \<Rightarrow>
         (case skip_whitespace r1 of
            [] \<Rightarrow> Inl JSONDecodeError
          | d # r2 \<Rightarrow>
              if d = 93 then Inr (JArr (items @ [val]), r2)
              else if d = 44 then
                parse_array n max_str_digits fl (items @ [val]) (skip_whitespace r2)
              else Inl JSONDecodeError))"

text \<open>
  \<^verbatim>\<open>json.loads\<close> on a \<^verbatim>\<open>str\<close>: no byte order mark, one value between optional
  whitespace, and nothing after it.
\<close>

definition json_loads_text ::
    "nat \<Rightarrow> 'f json_float_ops \<Rightarrow> pystr \<Rightarrow> py_exception + 'f jvalue" where
  "json_loads_text max_str_digits fl s =
    (if take 1 s = [0xFEFF] then Inl JSONDecodeError
     else
       (case scan_once (Suc (length s)) max_str_digits fl (skip_whitespace s) of
          Inl e \<Rightarrow> Inl e
        | Inr (obj, rest) \<Rightarrow>
            if skip_whitespace rest = [] then Inr obj else Inl JSONDecodeError))"

subsection \<open>What the library promises about a float\<close>

text \<open>
  The \<^verbatim>\<open>repr\<close> of a finite float is a JSON number with a fraction or an exponent, and
  \<^verbatim>\<open>float\<close> reads it back as a float equal to the one printed; an infinity is equal to
  itself from both sides.
\<close>

definition reads_back :: "'f json_float_ops \<Rightarrow> 'f \<Rightarrow> bool" where
  "reads_back fl x =
    (if float_eq fl x (float_inf fl) then float_eq fl (float_inf fl) x
     else if float_eq fl x (float_neg_inf fl) then float_eq fl (float_neg_inf fl) x
     else match_number (float_repr fl x) = Some (float_repr fl x, True, [])
          \<and> (case float_of_str fl (float_repr fl x) of
                None \<Rightarrow> False
              | Some y \<Rightarrow> float_eq fl y x))"

text \<open>
  A \<^verbatim>\<open>str\<close> in which no high surrogate is directly followed by a low surrogate; all its
  code points are below \<open>0x110000\<close>.
\<close>

fun no_surrogate_pair :: "pystr \<Rightarrow> bool" where
  "no_surrogate_pair [] = True"
| "no_surrogate_pair [c] = (c < 0x110000)"
| "no_surrogate_pair (c # d # s) =
    (c < 0x110000
     \<and> \<not> (0xD800 \<le> c \<and> c \<le> 0xDBFF \<and> 0xDC00 \<le> d \<and> d \<le> 0xDFFF)
     \<and> no_surrogate_pair (d # s))"

section \<open>Properties of the framing\<close>

lemma find_at_delimiter:
  "d \<notin> set p \<Longrightarrow> find_at [d] (p @ d # r) i = Some (i + length p)"
  by (induction p arbitrary: i) (auto simp: startswith_def)

lemma find_at_no_delimiter:
  "d \<notin> set p \<Longrightarrow> find_at [d] p i = None"
  by (induction p arbitrary: i) (auto simp: startswith_def)

lemma split_buffer_message:
  "CHR 0x0A \<notin> set p \<Longrightarrow> split_buffer (p @ CHR 0x0A # r) = Some (p, r)"
  by (simp add: split_buffer_def py_find_def MESSAGE_DELIMITER_def find_at_delimiter)

lemma split_buffer_incomplete:
  "CHR 0x0A \<notin> set p \<Longrightarrow> split_buffer p = None"
  by (simp add: split_buffer_def py_find_def MESSAGE_DELIMITER_def find_at_no_delimiter)

lemma OrderBook_buffered_message:
  "split_buffer recv_buffer = Some (message, rest) \<Longrightarrow> decode message = Some text \<Longrightarrow>
   OrderBook_receive_framed_message recv_buffer sock = Some (Inr text, rest, sock)"
  by (cases "(recv_buffer, sock)" rule: OrderBook_receive_framed_message.cases) simp_all

lemma news_buffered_message:
  "split_buffer recv_buffer = Some (message, rest) \<Longrightarrow> decode message = Some text \<Longrightarrow>
   receive_framed_news_message recv_buffer sock = Some (Inr text, rest, sock)"
  by (cases "(recv_buffer, sock)" rule: receive_framed_news_message.cases) simp_all

lemma OrderManager_buffered_message:
  "split_buffer recv_buffer = Some (message, rest) \<Longrightarrow> decode message = Some text \<Longrightarrow>
   OrderManager_receive_framed_message recv_buffer sock = Some (Inr text, rest, sock)"
  by (cases "(recv_buffer, sock)" rule: OrderManager_receive_framed_message.cases) simp_all

text \<open>
  Claim C1.  The connection is fresh (the receive buffer is empty) and its first chunk
  is three payloads, each followed by the delimiter; no payload contains the delimiter
  and each is the UTF-8 encoding of a text.  Then three successive calls of
  \<^verbatim>\<open>receive_framed_message\<close>, each started in the buffer and socket the previous one
  left, return the three texts in order.  The first call takes the chunk from the
  socket; the second and third leave the socket as it is, and after the third the
  buffer is empty.  This holds for the reader of the order book and for the one of the
  order manager.
\<close>

theorem three_framed_messages:
  assumes "CHR 0x0A \<notin> set p1" and "CHR 0x0A \<notin> set p2" and "CHR 0x0A \<notin> set p3"
    and "decode p1 = Some m1" and "decode p2 = Some m2" and "decode p3 = Some m3"
  shows
   "OrderBook_receive_framed_message []
        (Recv (p1 @ CHR 0x0A # p2 @ CHR 0x0A # p3 @ [CHR 0x0A]) # sock)
      = Some (Inr m1, p2 @ CHR 0x0A # p3 @ [CHR 0x0A], sock)
    \<and> OrderBook_receive_framed_message (p2 @ CHR 0x0A # p3 @ [CHR 0x0A]) sock
      = Some (Inr m2, p3 @ [CHR 0x0A], sock)
    \<and> OrderBook_receive_framed_message (p3 @ [CHR 0x0A]) sock = Some (Inr m3, [], sock)
    \<and> OrderManager_receive_framed_message []
        (Recv (p1 @ CHR 0x0A # p2 @ CHR 0x0A # p3 @ [CHR 0x0A]) # sock)
      = Some (Inr m1, p2 @ CHR 0x0A # p3 @ [CHR 0x0A], sock)
    \<and> OrderManager_receive_framed_message (p2 @ CHR 0x0A # p3 @ [CHR 0x0A]) sock
      = Some (Inr m2, p3 @ [CHR 0x0A], sock)
    \<and> OrderManager_receive_framed_message (p3 @ [CHR 0x0A]) sock = Some (Inr m3, [], sock)"
proof -
  let ?b2 = "p2 @ CHR 0x0A # p3 @ [CHR 0x0A]"
  have empty: "split_buffer [] = None"
    by (simp add: split_buffer_incomplete)
  have s1: "split_buffer (p1 @ CHR 0x0A # ?b2) = Some (p1, ?b2)"
    using assms(1) by (rule split_buffer_message)
  have s2: "split_buffer ?b2 = Some (p2, p3 @ [CHR 0x0A])"
    using assms(2) by (rule split_buffer_message)
  have s3: "split_buffer (p3 @ [CHR 0x0A]) = Some (p3, [])"
    using assms(3) by (rule split_buffer_message)
  show ?thesis
    using empty assms(4-6)
    by (simp add: OrderBook_buffered_message [OF s1] OrderBook_buffered_message [OF s2]
        OrderBook_buffered_message [OF s3] OrderManager_buffered_message [OF s1]
        OrderManager_buffered_message [OF s2] OrderManager_buffered_message [OF s3])
qed

theorem three_framed_messages_witness:
  "OrderBook_receive_framed_message []
        [Recv (''7'' @ CHR 0x0A # [] @ CHR 0x0A # [CHR 0xC3, CHR 0xA9] @ [CHR 0x0A])]
      = Some (Inr [55], [] @ CHR 0x0A # [CHR 0xC3, CHR 0xA9] @ [CHR 0x0A], [])
    \<and> OrderBook_receive_framed_message ([] @ CHR 0x0A # [CHR 0xC3, CHR 0xA9] @ [CHR 0x0A]) []
      = Some (Inr [], [CHR 0xC3, CHR 0xA9] @ [CHR 0x0A], [])
    \<and> OrderBook_receive_framed_message ([CHR 0xC3, CHR 0xA9] @ [CHR 0x0A]) []
      = Some (Inr [233], [], [])
    \<and> OrderManager_receive_framed_message []
        [Recv (''7'' @ CHR 0x0A # [] @ CHR 0x0A # [CHR 0xC3, CHR 0xA9] @ [CHR 0x0A])]
      = Some (Inr [55], [] @ CHR 0x0A # [CHR 0xC3, CHR 0xA9] @ [CHR 0x0A], [])
    \<and> OrderManager_receive_framed_message ([] @ CHR 0x0A # [CHR 0xC3, CHR 0xA9] @ [CHR 0x0A]) []
      = Some (Inr [], [CHR 0xC3, CHR 0xA9] @ [CHR 0x0A], [])
    \<and> OrderManager_receive_framed_message ([CHR 0xC3, CHR 0xA9] @ [CHR 0x0A]) []
      = Some (Inr [233], [], [])"
proof -
  have d1: "decode ''7'' = Some [55]"
    by (simp add: decode_def)
  have d2: "decode [] = Some []"
    by (simp add: decode_def)
  have d3: "decode [CHR 0xC3, CHR 0xA9] = Some [233]"
    by (simp add: decode_def is_continuation_def)
  show ?thesis
    by (rule three_framed_messages [OF _ _ _ d1 d2 d3]) simp_all
qed

lemma OrderBook_closed:
  "CHR 0x0A \<notin> set recv_buffer \<Longrightarrow> \<forall>c \<in> set chunks. c \<noteq> [] \<and> CHR 0x0A \<notin> set c \<Longrightarrow>
   OrderBook_receive_framed_message recv_buffer (map Recv chunks @ Recv [] # sock)
     = Some (Inl SocketStreamClosed, recv_buffer @ concat chunks, sock)"
  by (induction chunks arbitrary: recv_buffer) (simp_all add: split_buffer_incomplete)

lemma news_closed:
  "CHR 0x0A \<notin> set recv_buffer \<Longrightarrow> \<forall>c \<in> set chunks. c \<noteq> [] \<and> CHR 0x0A \<notin> set c \<Longrightarrow>
   receive_framed_news_message recv_buffer (map Recv chunks @ Recv [] # sock)
     = Some (Inl SocketStreamClosed, recv_buffer @ concat chunks, sock)"
  by (induction chunks arbitrary: recv_buffer) (simp_all add: split_buffer_incomplete)

lemma OrderManager_closed:
  "CHR 0x0A \<notin> set recv_buffer \<Longrightarrow> \<forall>c \<in> set chunks. c \<noteq> [] \<and> CHR 0x0A \<notin> set c \<Longrightarrow>
   OrderManager_receive_framed_message recv_buffer (map Recv chunks @ Recv [] # sock)
     = Some (Inl ConnectionResetError, recv_buffer @ concat chunks, sock)"
  by (induction chunks arbitrary: recv_buffer) (simp_all add: split_buffer_incomplete)

text \<open>
  Claim C2.  The buffer holds no delimiter, the socket delivers any number of non-empty
  chunks without a delimiter and then returns zero bytes.  Every reader then raises its
  stream-closed exception, and returns no message: \<^verbatim>\<open>SocketStreamClosed\<close> in the order
  book (price ingester) and in the strategy (news reader), \<^verbatim>\<open>ConnectionResetError\<close>,
  which the order manager (order sink) handles as the disconnection of its peer.  The
  bytes received so far stay in the buffer.
\<close>

theorem closed_before_complete_message:
  assumes "CHR 0x0A \<notin> set recv_buffer"
    and "\<forall>c \<in> set chunks. c \<noteq> [] \<and> CHR 0x0A \<notin> set c"
  shows
   "OrderBook_receive_framed_message recv_buffer (map Recv chunks @ Recv [] # sock)
      = Some (Inl SocketStreamClosed, recv_buffer @ concat chunks, sock)
    \<and> receive_framed_news_message recv_buffer (map Recv chunks @ Recv [] # sock)
      = Some (Inl SocketStreamClosed, recv_buffer @ concat chunks, sock)
    \<and> OrderManager_receive_framed_message recv_buffer (map Recv chunks @ Recv [] # sock)
      = Some (Inl ConnectionResetError, recv_buffer @ concat chunks, sock)"
  using assms by (simp add: OrderBook_closed news_closed OrderManager_closed)

theorem closed_before_complete_message_witness:
  "OrderBook_receive_framed_message ''AA'' (map Recv [''PL,1'', ''01''] @ Recv [] # [])
      = Some (Inl SocketStreamClosed, ''AA'' @ concat [''PL,1'', ''01''], [])
    \<and> receive_framed_news_message ''AA'' (map Recv [''PL,1'', ''01''] @ Recv [] # [])
      = Some (Inl SocketStreamClosed, ''AA'' @ concat [''PL,1'', ''01''], [])
    \<and> OrderManager_receive_framed_message ''AA'' (map Recv [''PL,1'', ''01''] @ Recv [] # [])
      = Some (Inl ConnectionResetError, ''AA'' @ concat [''PL,1'', ''01''], [])"
  by (rule closed_before_complete_message) simp_all

section \<open>Properties of the shared price book\<close>

lemma map_of_fold_update:
  "map_of (fold (\<lambda>(k, v). AList.update k v) kvs acc) k = Some v \<Longrightarrow>
   (k, v) \<in> set kvs \<or> map_of acc k = Some v"
proof (induction kvs arbitrary: acc)
  case Nil
  then show ?case by simp
next
  case (Cons kv kvs)
  obtain a b where kv: "kv = (a, b)" by (cases kv)
  from Cons.prems have "map_of (fold (\<lambda>(k, v). AList.update k v) kvs (AList.update a b acc)) k = Some v"
    by (simp add: kv)
  then have "(k, v) \<in> set kvs \<or> map_of (AList.update a b acc) k = Some v"
    by (rule Cons.IH)
  then show ?case
    by (auto simp: kv update_conv' split: if_splits)
qed

lemma map_of_dict_of: "map_of (dict_of kvs) k = Some v \<Longrightarrow> (k, v) \<in> set kvs"
  using map_of_fold_update [of kvs "[]" k v] by (simp add: dict_of_def)

lemma keys_fold_update:
  "fst ` set (fold (\<lambda>(k, v). AList.update k v) kvs acc) = fst ` set kvs \<union> fst ` set acc"
proof (induction kvs arbitrary: acc)
  case Nil
  then show ?case by simp
next
  case (Cons kv kvs)
  obtain a b where kv: "kv = (a, b)" by (cases kv)
  have "fst ` set (fold (\<lambda>(k, v). AList.update k v) kvs (AList.update a b acc))
          = fst ` set kvs \<union> fst ` set (AList.update a b acc)"
    by (rule Cons.IH)
  then show ?case
    by (simp add: kv dom_update Un_commute Un_left_commute insert_commute)
qed

lemma keys_dict_of: "fst ` set (dict_of kvs) = fst ` set kvs"
  by (simp add: dict_of_def keys_fold_update)

lemma index_in_range:
  "map_of (dict_of (map (\<lambda>(i, sym). (sym, i)) (enumerate 0 syms))) symbol = Some index \<Longrightarrow>
   index < length syms"
  by (drule map_of_dict_of) (auto simp: in_set_enumerate_eq)

lemma keys_enumerate: "fst ` set (map (\<lambda>(i, sym). (sym, i)) (enumerate 0 syms)) = set syms"
proof -
  have "map fst (map (\<lambda>(i, sym). (sym, i)) (enumerate 0 syms)) = map snd (enumerate 0 syms)"
    by (simp add: case_prod_unfold comp_def)
  then have "map fst (map (\<lambda>(i, sym). (sym, i)) (enumerate 0 syms)) = syms"
    by (simp only: map_snd_enumerate)
  then show ?thesis
    by (metis set_map)
qed

lemma index_defined:
  "(map_of (dict_of (map (\<lambda>(i, sym). (sym, i)) (enumerate 0 syms))) symbol = None)
    = (symbol \<notin> set syms)"
  by (simp only: map_of_eq_None_iff keys_dict_of keys_enumerate)


lemma map_fst_price_update: "map fst (rows[i := (fst (rows ! i), p)]) = map fst rows"
  by (induction rows arbitrary: i) (auto split: nat.splits)

text \<open>A book that the constructor returns is usable.\<close>

lemma init_usable:
  assumes "SharedPriceBook_init fl syms nm create w = Inr (self, w')"
  shows "usable self w'"
proof (cases create)
  case True
  with assms show ?thesis
    by (auto simp: SharedPriceBook_init_def SharedMemory_create_def usable_def Let_def
        split: if_splits)
next
  case False
  with assms show ?thesis
    by (auto simp: SharedPriceBook_init_def SharedMemory_attach_def usable_def Let_def
        split: if_splits option.splits)
qed

text \<open>
  Claim C4.  The book is usable (it is as the constructor returns it).  If the
  symbol is one of the book's symbols, \<^verbatim>\<open>update\<close> returns normally, and the array it
  leaves differs from the one before in the price of the record at the symbol's index
  only: the other records, the symbol of every record, the rest of the block, the other
  blocks and the names are as before.  If the symbol is not one of the book's symbols,
  \<^verbatim>\<open>update\<close> returns normally and the world is unchanged.  The book itself (its symbols
  and their indices) is not an output of \<^verbatim>\<open>update\<close>.
\<close>

theorem update_writes_one_price:
  assumes "usable self w" and "shm self = Some m"
  shows "(symbol \<in> set (symbols self) \<longrightarrow>
           (\<exists>index w'. map_of (symbol_to_index self) symbol = Some index
              \<and> index < size_book self
              \<and> update self symbol price w = Inr w'
              \<and> data_array self w'
                  = (data_array self w)[index := (fst (data_array self w ! index), price)]
              \<and> map fst (data_array self w') = map fst (data_array self w)
              \<and> drop (size_book self) (blocks w' (block m))
                  = drop (size_book self) (blocks w (block m))
              \<and> (\<forall>b. b \<noteq> block m \<longrightarrow> blocks w' b = blocks w b)
              \<and> names w' = names w \<and> next_block w' = next_block w))
       \<and> (symbol \<notin> set (symbols self) \<longrightarrow> update self symbol price w = Inr w)"
proof (intro conjI impI)
  assume "symbol \<notin> set (symbols self)"
  then have "map_of (symbol_to_index self) symbol = None"
    using assms(1) by (simp add: usable_def index_defined)
  then show "update self symbol price w = Inr w"
    by (simp add: update_def)
next
  assume member: "symbol \<in> set (symbols self)"
  have sti: "symbol_to_index self
      = dict_of (map (\<lambda>(i, sym). (sym, i)) (enumerate 0 (symbols self)))"
    and sz: "size_book self = length (symbols self)"
    and mp: "mapped m" and len: "size_book self \<le> length (blocks w (block m))"
    using assms by (simp_all add: usable_def)
  from member obtain index where idx: "map_of (symbol_to_index self) symbol = Some index"
    using index_defined [of "symbols self" symbol] sti by auto
  then have bound: "index < size_book self"
    using index_in_range [of "symbols self" symbol index] sti sz by simp
  let ?rows = "blocks w (block m)"
  let ?w' = "w\<lparr>blocks := (blocks w)(block m := ?rows[index := (fst (?rows ! index), price)])\<rparr>"
  have upd: "update self symbol price w = Inr ?w'"
    using idx bound mp assms(2) by (simp add: update_def)
  have arr: "data_array self ?w'
      = (data_array self w)[index := (fst (data_array self w ! index), price)]"
    using bound assms(2) by (simp add: data_array_def take_update_swap)
  have col: "map fst (data_array self ?w') = map fst (data_array self w)"
    using assms(2) by (simp add: data_array_def take_map [symmetric] map_fst_price_update)
  have rest: "drop (size_book self) (blocks ?w' (block m)) = drop (size_book self) ?rows"
    using bound by simp
  show "\<exists>index w'. map_of (symbol_to_index self) symbol = Some index
              \<and> index < size_book self
              \<and> update self symbol price w = Inr w'
              \<and> data_array self w'
                  = (data_array self w)[index := (fst (data_array self w ! index), price)]
              \<and> map fst (data_array self w') = map fst (data_array self w)
              \<and> drop (size_book self) (blocks w' (block m))
                  = drop (size_book self) (blocks w (block m))
              \<and> (\<forall>b. b \<noteq> block m \<longrightarrow> blocks w' b = blocks w b)
              \<and> names w' = names w \<and> next_block w' = next_block w"
    using idx bound upd arr col rest by (intro exI [of _ index] exI [of _ ?w']) simp
qed

theorem update_writes_one_price_witness:
  "usable
     \<lparr>symbols = [str ''AAPL'', str ''MSFT''], shm_name = str ''book'', size_book = 2,
      shm = Some \<lparr>name = str ''book'', block = 0, mapped = True\<rparr>,
      symbol_to_index = [(str ''AAPL'', 0), (str ''MSFT'', 1)], is_creator = True\<rparr>
     \<lparr>names = [str ''book'' \<mapsto> 0],
      blocks = (\<lambda>_. [])(0 := [(str ''AAPL'', 0), (str ''MSFT'', 0 :: rat)]),
      next_block = 1\<rparr>
   \<and> update
     \<lparr>symbols = [str ''AAPL'', str ''MSFT''], shm_name = str ''book'', size_book = 2,
      shm = Some \<lparr>name = str ''book'', block = 0, mapped = True\<rparr>,
      symbol_to_index = [(str ''AAPL'', 0), (str ''MSFT'', 1)], is_creator = True\<rparr>
     (str ''MSFT'') (411 / 2)
     \<lparr>names = [str ''book'' \<mapsto> 0],
      blocks = (\<lambda>_. [])(0 := [(str ''AAPL'', 0), (str ''MSFT'', 0 :: rat)]),
      next_block = 1\<rparr>
    = Inr \<lparr>names = [str ''book'' \<mapsto> 0],
      blocks = (\<lambda>_. [])(0 := [(str ''AAPL'', 0), (str ''MSFT'', 411 / 2)]),
      next_block = 1\<rparr>
   \<and> update
     \<lparr>symbols = [str ''AAPL'', str ''MSFT''], shm_name = str ''book'', size_book = 2,
      shm = Some \<lparr>name = str ''book'', block = 0, mapped = True\<rparr>,
      symbol_to_index = [(str ''AAPL'', 0), (str ''MSFT'', 1)], is_creator = True\<rparr>
     (str ''GOOGL'') (411 / 2)
     \<lparr>names = [str ''book'' \<mapsto> 0],
      blocks = (\<lambda>_. [])(0 := [(str ''AAPL'', 0), (str ''MSFT'', 0 :: rat)]),
      next_block = 1\<rparr>
    = Inr \<lparr>names = [str ''book'' \<mapsto> 0],
      blocks = (\<lambda>_. [])(0 := [(str ''AAPL'', 0), (str ''MSFT'', 0)]),
      next_block = 1\<rparr>"
proof -
  let ?self = "\<lparr>symbols = [str ''AAPL'', str ''MSFT''], shm_name = str ''book'', size_book = 2,
      shm = Some \<lparr>name = str ''book'', block = 0, mapped = True\<rparr>,
      symbol_to_index = [(str ''AAPL'', 0), (str ''MSFT'', 1)], is_creator = True\<rparr>"
  let ?w = "\<lparr>names = [str ''book'' \<mapsto> 0],
      blocks = (\<lambda>_. [])(0 := [(str ''AAPL'', 0), (str ''MSFT'', 0 :: rat)]),
      next_block = 1\<rparr>"
  have u: "usable ?self ?w"
    by (simp add: usable_def dict_of_def str_def enumerate_eq_zip)
  have m: "shm ?self = Some \<lparr>name = str ''book'', block = 0, mapped = True\<rparr>"
    by simp
  show ?thesis
    using u update_writes_one_price [OF u m, of "str ''MSFT''" "411 / 2"]
      update_writes_one_price [OF u m, of "str ''GOOGL''" "411 / 2"]
    by (auto simp: data_array_def str_def update_def)
qed

lemma cleanup_result:
  "cleanup self w =
    (case shm self of
       None \<Rightarrow> Inr (self, w)
     | Some m \<Rightarrow>
         Inr (self\<lparr>shm := Some (m\<lparr>mapped := False\<rparr>)\<rparr>,
              if is_creator self then w\<lparr>names := (names w)(name m := None)\<rparr> else w))"
  by (cases w) (auto simp: cleanup_def SharedMemory_close_def SharedMemory_unlink_def
      cleanup_except_def is_Exception_def split: option.splits)

text \<open>
  Claim C8.  \<^verbatim>\<open>cleanup\<close> never raises, whatever the state of the book and of the shared
  memory, so neither a second call nor a call after the name was removed by someone else
  does.  A second call changes nothing.  No call changes the contents of a block.  A book
  that did not create the block leaves the world unchanged; the creator removes the name
  of its block and no other; if that name is already gone the world is unchanged.
\<close>

theorem cleanup_idempotent:
  "\<exists>self' w'. cleanup self w = Inr (self', w')
      \<and> cleanup self' w' = Inr (self', w')
      \<and> blocks w' = blocks w
      \<and> (\<not> is_creator self \<longrightarrow> w' = w)
      \<and> (\<forall>m. is_creator self \<and> shm self = Some m \<longrightarrow> names w' = (names w)(name m := None))
      \<and> (\<forall>m. shm self = Some m \<and> names w (name m) = None \<longrightarrow> w' = w)"
  by (cases "shm self") (auto simp: cleanup_result fun_upd_idem)

theorem cleanup_idempotent_witness:
  "cleanup
     \<lparr>symbols = [str ''AAPL''], shm_name = str ''book'', size_book = 1,
      shm = Some \<lparr>name = str ''book'', block = 0, mapped = True\<rparr>,
      symbol_to_index = [(str ''AAPL'', 0)], is_creator = True\<rparr>
     \<lparr>names = [str ''book'' \<mapsto> 0], blocks = (\<lambda>_. [])(0 := [(str ''AAPL'', 0 :: rat)]),
      next_block = 1\<rparr>
    = Inr (\<lparr>symbols = [str ''AAPL''], shm_name = str ''book'', size_book = 1,
            shm = Some \<lparr>name = str ''book'', block = 0, mapped = False\<rparr>,
            symbol_to_index = [(str ''AAPL'', 0)], is_creator = True\<rparr>,
           \<lparr>names = Map.empty, blocks = (\<lambda>_. [])(0 := [(str ''AAPL'', 0 :: rat)]),
            next_block = 1\<rparr>)
   \<and> cleanup
     \<lparr>symbols = [str ''AAPL''], shm_name = str ''book'', size_book = 1,
      shm = Some \<lparr>name = str ''book'', block = 0, mapped = False\<rparr>,
      symbol_to_index = [(str ''AAPL'', 0)], is_creator = True\<rparr>
     \<lparr>names = Map.empty, blocks = (\<lambda>_. [])(0 := [(str ''AAPL'', 0 :: rat)]),
      next_block = 1\<rparr>
    = Inr (\<lparr>symbols = [str ''AAPL''], shm_name = str ''book'', size_book = 1,
            shm = Some \<lparr>name = str ''book'', block = 0, mapped = False\<rparr>,
            symbol_to_index = [(str ''AAPL'', 0)], is_creator = True\<rparr>,
           \<lparr>names = Map.empty, blocks = (\<lambda>_. [])(0 := [(str ''AAPL'', 0 :: rat)]),
            next_block = 1\<rparr>)
   \<and> cleanup
     \<lparr>symbols = [str ''AAPL''], shm_name = str ''book'', size_book = 1,
      shm = Some \<lparr>name = str ''book'', block = 0, mapped = True\<rparr>,
      symbol_to_index = [(str ''AAPL'', 0)], is_creator = False\<rparr>
     \<lparr>names = [str ''book'' \<mapsto> 0], blocks = (\<lambda>_. [])(0 := [(str ''AAPL'', 0 :: rat)]),
      next_block = 1\<rparr>
    = Inr (\<lparr>symbols = [str ''AAPL''], shm_name = str ''book'', size_book = 1,
            shm = Some \<lparr>name = str ''book'', block = 0, mapped = False\<rparr>,
            symbol_to_index = [(str ''AAPL'', 0)], is_creator = False\<rparr>,
           \<lparr>names = [str ''book'' \<mapsto> 0], blocks = (\<lambda>_. [])(0 := [(str ''AAPL'', 0 :: rat)]),
            next_block = 1\<rparr>)"
proof -
  let ?own = "\<lparr>symbols = [str ''AAPL''], shm_name = str ''book'', size_book = 1,
      shm = Some \<lparr>name = str ''book'', block = 0, mapped = True\<rparr>,
      symbol_to_index = [(str ''AAPL'', 0)], is_creator = True\<rparr>"
  let ?w = "\<lparr>names = [str ''book'' \<mapsto> 0],
      blocks = (\<lambda>_. [])(0 := [(str ''AAPL'', 0 :: rat)]), next_block = 1\<rparr>"
  show ?thesis
    using cleanup_idempotent [of ?own ?w] cleanup_idempotent [of "?own\<lparr>is_creator := False\<rparr>" ?w]
      cleanup_idempotent [of "?own\<lparr>shm := Some \<lparr>name = str ''book'', block = 0, mapped = False\<rparr>\<rparr>"
         "?w\<lparr>names := Map.empty\<rparr>"]
    by (simp add: cleanup_result)
qed

section \<open>The price ingester at work\<close>

lemma decode_prices:
  "decode ''AAPL,101.00MSFT,205.50'' = Some (str ''AAPL,101.00MSFT,205.50'')"
  by (simp add: decode_def str_def)

lemma receive_prices:
  "OrderBook_receive_framed_message [] [Recv (''AAPL,101.00MSFT,205.50'' @ [CHR 0x0A])]
     = Some (Inr (str ''AAPL,101.00MSFT,205.50''), [], [])"
proof -
  have "split_buffer (''AAPL,101.00MSFT,205.50'' @ CHR 0x0A # []) = Some (''AAPL,101.00MSFT,205.50'', [])"
    by (rule split_buffer_message) simp
  moreover have "split_buffer [] = None"
    by (simp add: split_buffer_incomplete)
  ultimately show ?thesis
    by (simp add: decode_prices)
qed

lemma sorted_pair:
  "syms = [str ''AAPL'', str ''MSFT''] \<or> syms = [str ''MSFT'', str ''AAPL''] \<Longrightarrow>
   sort syms = [str ''AAPL'', str ''MSFT'']"
  by (auto simp: str_def)

lemma indices_pair:
  "dict_of [(str ''AAPL'', 0 :: nat), (str ''MSFT'', Suc 0)]
    = [(str ''AAPL'', 0), (str ''MSFT'', Suc 0)]"
  by (simp add: dict_of_def str_def)

lemma parse_AAPL:
  assumes "float_of_str fl (str ''101.00'') = Some a"
    and "syms = [str ''AAPL'', str ''MSFT''] \<or> syms = [str ''MSFT'', str ''AAPL'']"
  shows "parse_symbol fl syms shm_book (str ''AAPL,101.00MSFT,205.50'') (str ''AAPL'') w
     = update shm_book (str ''AAPL'') a w"
  using assms
  by (auto simp: parse_symbol_def end_of_price_def py_find_def startswith_def py_strip_def
      py_slice_def py_isspace_def str_def Let_def)

lemma parse_MSFT:
  assumes "float_of_str fl (str ''205.50'') = Some b"
    and "syms = [str ''AAPL'', str ''MSFT''] \<or> syms = [str ''MSFT'', str ''AAPL'']"
  shows "parse_symbol fl syms shm_book (str ''AAPL,101.00MSFT,205.50'') (str ''MSFT'') w
     = update shm_book (str ''MSFT'') b w"
  using assms
  by (auto simp: parse_symbol_def end_of_price_def py_find_def startswith_def py_strip_def
      py_slice_def py_isspace_def str_def Let_def)


lemma handle_prices:
  assumes "float_of_str fl (str ''101.00'') = Some a"
    and "float_of_str fl (str ''205.50'') = Some b"
    and "syms = [str ''AAPL'', str ''MSFT''] \<or> syms = [str ''MSFT'', str ''AAPL'']"
    and "update shm_book (str ''AAPL'') a w = Inr wa"
    and "update shm_book (str ''MSFT'') b w = Inr wb"
    and "update shm_book (str ''MSFT'') b wa = Inr wab"
    and "update shm_book (str ''AAPL'') a wb = Inr wab"
  shows "handle_message fl syms shm_book (str ''AAPL,101.00MSFT,205.50'') w = (wab, [], None)"
  using assms(3)
proof
  assume s: "syms = [str ''AAPL'', str ''MSFT'']"
  have "parse_ticks fl syms shm_book (str ''AAPL,101.00MSFT,205.50'') [str ''AAPL'', str ''MSFT''] w
      = (None, wab)"
    by (simp add: parse_AAPL [OF assms(1,3)] parse_MSFT [OF assms(2,3)] assms(4,6))
  then show ?thesis
    by (simp add: handle_message_def s [symmetric])
next
  assume s: "syms = [str ''MSFT'', str ''AAPL'']"
  have "parse_ticks fl syms shm_book (str ''AAPL,101.00MSFT,205.50'') [str ''MSFT'', str ''AAPL''] w
      = (None, wab)"
    by (simp add: parse_AAPL [OF assms(1,3)] parse_MSFT [OF assms(2,3)] assms(5,7))
  then show ?thesis
    by (simp add: handle_message_def s [symmetric])
qed

text \<open>
  Claim C5.  The owner creates the book for the symbols AAPL and MSFT, given in either
  order, under a name that is free; every price is then \<^verbatim>\<open>0.0\<close>.  The order book attaches
  and its connection delivers the one chunk \<^verbatim>\<open>AAPL,101.00MSFT,205.50\<close> with the delimiter.
  It prints no parsing error and then waits for more data, and \<^verbatim>\<open>read_all\<close> on the owner's
  book returns exactly AAPL with the value of \<^verbatim>\<open>float('101.00')\<close> and MSFT with the value of
  \<^verbatim>\<open>float('205.50')\<close>.
\<close>

theorem prices_end_to_end:
  assumes a: "float_of_str fl (str ''101.00'') = Some a"
    and b: "float_of_str fl (str ''205.50'') = Some b"
    and syms: "syms = [str ''AAPL'', str ''MSFT''] \<or> syms = [str ''MSFT'', str ''AAPL'']"
    and fresh: "names w0 nm = None"
  shows "\<exists>owner w1 w2.
      SharedPriceBook_init fl syms nm True w0 = Inr (owner, w1)
    \<and> read_all owner w1 = Inr [(str ''AAPL'', float_zero fl), (str ''MSFT'', float_zero fl)]
    \<and> run_orderbook fl nm syms
          [Connects [Recv (''AAPL,101.00MSFT,205.50'' @ [CHR 0x0A])]] w1
        = (w2, [Attempting_to_connect, Connected], Waiting_in_recv)
    \<and> read_all owner w2 = Inr [(str ''AAPL'', a), (str ''MSFT'', b)]"
proof -
  let ?m = "\<lparr>name = nm, block = next_block w0, mapped = True\<rparr>"
  let ?book = "\<lambda>c. \<lparr>symbols = [str ''AAPL'', str ''MSFT''], shm_name = nm, size_book = 2,
      shm = Some ?m, symbol_to_index = [(str ''AAPL'', 0), (str ''MSFT'', 1)],
      is_creator = c\<rparr>"
  let ?world = "\<lambda>x y. w0\<lparr>names := (names w0)(nm \<mapsto> next_block w0),
      blocks := (blocks w0)(next_block w0 := [(str ''AAPL'', x), (str ''MSFT'', y)]),
      next_block := Suc (next_block w0)\<rparr>"
  let ?w1 = "?world (float_zero fl) (float_zero fl)"
  let ?w2 = "?world a b"
  have srt: "sort syms = [str ''AAPL'', str ''MSFT'']"
    using syms by (rule sorted_pair)
  have u10: "U10 (str ''AAPL'') = str ''AAPL''" "U10 (str ''MSFT'') = str ''MSFT''"
    by (simp_all add: U10_def str_def)
  have created: "SharedPriceBook_init fl syms nm True w0 = Inr (?book True, ?w1)"
    using fresh by (simp add: SharedPriceBook_init_def SharedMemory_create_def srt indices_pair u10
        Let_def)
  have attached: "SharedPriceBook_init fl syms nm False ?w1 = Inr (?book False, ?w1)"
    by (simp add: SharedPriceBook_init_def SharedMemory_attach_def srt indices_pair Let_def)
  have distinct: "str ''AAPL'' \<noteq> str ''MSFT''"
    by (simp add: str_def)
  have read: "read_all (?book True) (?world x y) = Inr [(str ''AAPL'', x), (str ''MSFT'', y)]" for x y
    using distinct by (simp add: read_all_def data_array_def dict_of_def)
  have upd:
    "update (?book False) (str ''AAPL'') a (?world x y) = Inr (?world a y)"
    "update (?book False) (str ''MSFT'') b (?world x y) = Inr (?world x b)" for x y
    using distinct by (simp_all add: update_def)
  have handled: "handle_message fl syms (?book False) (str ''AAPL,101.00MSFT,205.50'') ?w1
      = (?w2, [], None)"
    by (rule handle_prices [OF a b syms]) (rule upd)+
  have nonempty: "str ''AAPL,101.00MSFT,205.50'' \<noteq> []"
    by (simp add: str_def)
  have waiting: "OrderBook_receive_loop fl syms (?book False) [] [] ?w2 = (?w2, [], Blocks)"
    by (subst OrderBook_receive_loop.simps) (simp add: split_buffer_incomplete)
  have looped: "OrderBook_receive_loop fl syms (?book False) []
      [Recv (''AAPL,101.00MSFT,205.50'' @ [CHR 0x0A])] ?w1 = (?w2, [], Blocks)"
    by (subst OrderBook_receive_loop.simps)
       (simp only: receive_prices option.case prod.case sum.case nonempty if_False handled
          waiting append_Nil)
  have run: "run_orderbook fl nm syms [Connects [Recv (''AAPL,101.00MSFT,205.50'' @ [CHR 0x0A])]] ?w1
      = (?w2, [Attempting_to_connect, Connected], Waiting_in_recv)"
    by (simp only: run_orderbook_def attached sum.case prod.case OrderBook_connect_loop.simps
        looped ending.case)
  show ?thesis
    using created read [of "float_zero fl" "float_zero fl"] run read [of a b]
    by blast
qed

theorem prices_end_to_end_witness:
  "(case SharedPriceBook_init exact_ops [str ''MSFT'', str ''AAPL''] (str ''trading_shm_book'') True
           \<lparr>names = Map.empty, blocks = (\<lambda>_. []), next_block = 0\<rparr> of
      Inl e \<Rightarrow> False
    | Inr (owner, w1) \<Rightarrow>
        (case run_orderbook exact_ops (str ''trading_shm_book'') [str ''MSFT'', str ''AAPL'']
                [Connects [Recv (''AAPL,101.00MSFT,205.50'' @ [CHR 0x0A])]] w1 of
           (w2, outs, st) \<Rightarrow>
             read_all owner w2 = Inr [(str ''AAPL'', 101), (str ''MSFT'', 411 / 2)]))"
proof -
  have a: "float_of_str exact_ops (str ''101.00'') = Some 101"
    by (simp add: exact_ops_def decimal_of_str_def str_def)
  have b: "float_of_str exact_ops (str ''205.50'') = Some (411 / 2)"
    by (simp add: exact_ops_def decimal_of_str_def str_def)
  have fresh: "names \<lparr>names = Map.empty, blocks = (\<lambda>_. []) :: nat \<Rightarrow> rat row list, next_block = 0\<rparr>
      (str ''trading_shm_book'') = None"
    by simp
  from prices_end_to_end [OF a b _ fresh, of "[str ''MSFT'', str ''AAPL'']"]
  show ?thesis
    by auto
qed

section \<open>Connections\<close>

lemma OrderBook_buffer_irrelevant:
  "OrderBook_connect_loop fl syms shm_book recv_buffer net w
    = OrderBook_connect_loop fl syms shm_book recv_buffer' net w"
proof (induction net arbitrary: w)
  case Nil
  show ?case by simp
next
  case (Cons attempt net)
  show ?case
  proof (cases attempt)
    case (Connects sock)
    then show ?thesis by simp
  next
    case (ConnectRaises e)
    then show ?thesis
      by (cases "OrderBook_except e") (simp_all add: Cons.IH [of w])
  qed
qed

lemma OrderManager_buffer_irrelevant:
  "OrderManager_accept_loop js recv_buffer net = OrderManager_accept_loop js recv_buffer' net"
proof (induction net)
  case Nil
  show ?case by simp
next
  case (Cons attempt net)
  show ?case
  proof (cases attempt)
    case (Connects sock)
    then show ?thesis by simp
  next
    case (ConnectRaises e)
    then show ?thesis
      by (cases "OrderManager_except e") (simp_all add: Cons.IH)
  qed
qed

text \<open>
  Claim C7.  Whatever the global receive buffer holds when the connection loop is
  entered or resumed, in particular the bytes of a message left incomplete by the
  previous connection, the loop behaves as it does with an empty buffer: the shared
  memory it leaves, what it prints and how it ends are the same.  Every connection is
  read with a buffer that starts empty, in the order book and in the order manager.
\<close>

theorem fresh_buffer_for_every_connection:
  "OrderBook_connect_loop fl syms shm_book recv_buffer net w
     = OrderBook_connect_loop fl syms shm_book [] net w
   \<and> OrderManager_accept_loop js recv_buffer net = OrderManager_accept_loop js [] net"
  using OrderBook_buffer_irrelevant [of fl syms shm_book recv_buffer net w "[]"]
    OrderManager_buffer_irrelevant [of js recv_buffer net "[]"]
  by simp

lemma OrderManager_first_message:
  assumes "CHR 0x0A \<notin> set payload" and "decode payload = Some text"
  shows "OrderManager_receive_framed_message [] (Recv (payload @ CHR 0x0A # later) # sock)
     = Some (Inr text, later, sock)"
proof -
  have "split_buffer (payload @ CHR 0x0A # later) = Some (payload, later)"
    using assms(1) by (rule split_buffer_message)
  then have "OrderManager_receive_framed_message (payload @ CHR 0x0A # later) sock
      = Some (Inr text, later, sock)"
    using assms(2) by (rule OrderManager_buffered_message)
  then show ?thesis
    by (simp add: split_buffer_incomplete)
qed

lemma OrderBook_first_message:
  assumes "CHR 0x0A \<notin> set payload" and "decode payload = Some text"
  shows "OrderBook_receive_framed_message [] (Recv (payload @ CHR 0x0A # later) # sock)
     = Some (Inr text, later, sock)"
proof -
  have "split_buffer (payload @ CHR 0x0A # later) = Some (payload, later)"
    using assms(1) by (rule split_buffer_message)
  then have "OrderBook_receive_framed_message (payload @ CHR 0x0A # later) sock
      = Some (Inr text, later, sock)"
    using assms(2) by (rule OrderBook_buffered_message)
  then show ?thesis
    by (simp add: split_buffer_incomplete)
qed

text \<open>The order book goes on with the same connection after a message it cannot parse.\<close>

lemma OrderBook_skips_malformed:
  assumes "CHR 0x0A \<notin> set payload" and "decode payload = Some text" and "text \<noteq> []"
    and "parse_ticks fl syms shm_book text syms w = (Some e, w')" and "is_Exception e"
  shows "\<exists>out. OrderBook_receive_loop fl syms shm_book []
            (Recv (payload @ CHR 0x0A # later) # sock) w
     = (case OrderBook_receive_loop fl syms shm_book later sock w' of
          (w'', outs, end) \<Rightarrow> (w'', out # outs, end))"
proof -
  have "\<exists>out. handle_message fl syms shm_book text w = (w', [out], None)"
    using assms(4,5) by (simp add: handle_message_def)
  then obtain out where "handle_message fl syms shm_book text w = (w', [out], None)" ..
  then have "OrderBook_receive_loop fl syms shm_book []
            (Recv (payload @ CHR 0x0A # later) # sock) w
     = (case OrderBook_receive_loop fl syms shm_book later sock w' of
          (w'', outs, end) \<Rightarrow> (w'', out # outs, end))"
    using assms(3)
    by (subst OrderBook_receive_loop.simps)
       (simp add: OrderBook_first_message [OF assms(1,2)]
          del: OrderBook_receive_framed_message.simps)
  then show ?thesis ..
qed

text \<open>
  Claim C3, in the order manager.  A connection delivers a message that is not JSON,
  followed by anything at all.  The order manager prints the serialization error and
  goes back to \<^verbatim>\<open>accept\<close>: what the connection delivered after the message, and what it
  would still deliver, is never read, and the run continues as if the next \<^verbatim>\<open>accept\<close>
  were the first.  The \<^verbatim>\<open>except\<close> clause is on the outer loop, where
  \<open>OrderBook_skips_malformed\<close> shows the one of the order book on the inner loop.
\<close>

theorem malformed_order_ends_connection:
  assumes "CHR 0x0A \<notin> set payload" and "decode payload = Some text"
    and "json_loads js text = Inl JSONDecodeError"
  shows "OrderManager_accept_loop js recv_buffer
            (Connects (Recv (payload @ CHR 0x0A # later) # sock) # net)
     = (case OrderManager_accept_loop js [] net of
          (outs, st) \<Rightarrow> (Accepted # Serialization_Error # outs, st))"
proof -
  have "OrderManager_receive_loop js [] (Recv (payload @ CHR 0x0A # later) # sock)
      = ([], Raises JSONDecodeError later)"
    by (subst OrderManager_receive_loop.simps)
       (simp add: OrderManager_first_message [OF assms(1,2)] assms(3)
          del: OrderManager_receive_framed_message.simps)
  then show ?thesis
    by (simp add: OrderManager_except_def OrderManager_buffer_irrelevant [of js later net "[]"])
qed

theorem malformed_order_ends_connection_witness:
  "OrderManager_accept_loop integer_json []
      [Connects [Recv (''oops'' @ CHR 0x0A # ''{}'' @ [CHR 0x0A]), Recv (''{}'' @ [CHR 0x0A])]]
     = ([Accepted, Serialization_Error], Running)"
proof -
  have "decode ''oops'' = Some (str ''oops'')"
    by (simp add: decode_def str_def)
  moreover have "json_loads integer_json (str ''oops'') = Inl JSONDecodeError"
    by (simp add: integer_json_def int_of_json_def str_def)
  ultimately show ?thesis
    using malformed_order_ends_connection [of "''oops''" "str ''oops''" integer_json "[]"
        "''{}'' @ [CHR 0x0A]" "[Recv (''{}'' @ [CHR 0x0A])]" "[]"]
    by simp
qed

section \<open>The orders of the strategy\<close>

lemma follows_refl: "follows positions [] positions symbol"
  by (simp add: follows_def sides_of_def)

lemma sides_of_append: "sides_of symbol (xs @ ys) = sides_of symbol xs @ sides_of symbol ys"
  by (simp add: sides_of_def)

lemma follows_trans:
  assumes "follows p0 xs p1 symbol" and "follows p1 ys p2 symbol"
  shows "follows p0 (xs @ ys) p2 symbol"
proof (cases "sides_of symbol xs = []")
  case True
  with assms show ?thesis
    by (auto simp: follows_def sides_of_append split: if_splits)
next
  case xs: False
  show ?thesis
  proof (cases "sides_of symbol ys = []")
    case True
    with assms xs show ?thesis
      by (simp add: follows_def sides_of_append)
  next
    case False
    with assms xs show ?thesis
      by (auto simp: follows_def sides_of_append distinct_adj_append_iff)
  qed
qed

lemma held_side_update_other:
  "symbol' \<noteq> symbol \<Longrightarrow> held_side (AList.update symbol p positions) symbol' = held_side positions symbol'"
  by (simp add: held_side_def update_conv')

lemma held_side_update_same:
  "held_side (AList.update symbol p positions) symbol
    = (case p of LONG \<Rightarrow> BUY | SHORT \<Rightarrow> SELL | NONE \<Rightarrow> NEUTRAL)"
  by (simp add: held_side_def update_conv' split: position.splits)

lemma generate_order_follows:
  assumes "generate_order self symbol current_price final_signal = Inr (self', orders)"
  shows "follows (position self) orders (position self') symbol'"
proof (cases "orders = []")
  case True
  with assms have "self' = self"
    by (auto simp: generate_order_def split: if_splits option.splits)
  with True show ?thesis
    by (simp add: follows_refl)
next
  case False
  with assms consider
      (buy) held where "map_of (position self) symbol = Some held" "held \<noteq> LONG"
        "position self' = AList.update symbol LONG (position self)"
        "sides_of symbol' orders = (if symbol' = symbol then [BUY] else [])"
    | (sell) held where "map_of (position self) symbol = Some held" "held \<noteq> SHORT"
        "position self' = AList.update symbol SHORT (position self)"
        "sides_of symbol' orders = (if symbol' = symbol then [SELL] else [])"
    by (auto simp: generate_order_def sides_of_def split: if_splits option.splits)
  then show ?thesis
  proof cases
    case buy
    then show ?thesis
      by (cases held)
         (auto simp: follows_def held_side_def update_conv')
  next
    case sell
    then show ?thesis
      by (cases held)
         (auto simp: follows_def held_side_def update_conv')
  qed
qed

lemma trade_symbol_follows:
  "trade_symbol fl js sentiment self symbol current_price = Inr (self', orders) \<Longrightarrow>
   follows (position self) orders (position self') symbol'"
  by (auto simp: trade_symbol_def split: sum.splits dest: generate_order_follows)

lemma trade_symbols_follows:
  "trade_symbols fl js sentiment self ticks = (e, self', orders) \<Longrightarrow>
   follows (position self) orders (position self') symbol'"
proof (induction ticks arbitrary: self e self' orders)
  case Nil
  then show ?case by (simp add: follows_refl)
next
  case (Cons tick ticks)
  obtain symbol current_price where tick: "tick = (symbol, current_price)"
    by (cases tick)
  show ?case
  proof (cases "float_eq fl current_price (float_zero fl)")
    case True
    with Cons.prems tick have "trade_symbols fl js sentiment self ticks = (e, self', orders)"
      by simp
    then show ?thesis by (rule Cons.IH)
  next
    case False
    show ?thesis
    proof (cases "trade_symbol fl js sentiment self symbol current_price")
      case (Inl x)
      with Cons.prems tick False show ?thesis
        by (simp add: follows_refl)
    next
      case (Inr r)
      obtain self1 orders1 where r: "r = (self1, orders1)" by (cases r)
      obtain e2 self2 orders2 where
        rest: "trade_symbols fl js sentiment self1 ticks = (e2, self2, orders2)"
        by (cases "trade_symbols fl js sentiment self1 ticks")
      from Cons.prems tick False Inr r rest
      have eq: "self' = self2" "orders = orders1 @ orders2"
        by simp_all
      have "follows (position self) orders1 (position self1) symbol'"
        using Inr r by (simp add: trade_symbol_follows)
      moreover have "follows (position self1) orders2 (position self2) symbol'"
        using rest by (rule Cons.IH)
      ultimately show ?thesis
        unfolding eq by (rule follows_trans)
    qed
  qed
qed

lemma update_price_history_position:
  "update_price_history fl self ticks = (e, self') \<Longrightarrow> position self' = position self"
proof (induction ticks arbitrary: self)
  case Nil
  then show ?case by simp
next
  case (Cons tick ticks)
  obtain symbol p where tick: "tick = (symbol, p)" by (cases tick)
  show ?case
  proof (cases "float_less fl (float_zero fl) p")
    case False
    with Cons.prems tick show ?thesis
      by (simp add: Cons.IH)
  next
    case True
    show ?thesis
    proof (cases "map_of (price_history self) symbol")
      case None
      with Cons.prems tick True show ?thesis by simp
    next
      case (Some history)
      with Cons.prems tick True
      have "position self'
          = position (self\<lparr>price_history :=
                AList.update symbol (deque_append history p) (price_history self)\<rparr>)"
        by (intro Cons.IH) simp
      then show ?thesis by simp
    qed
  qed
qed

lemma strategy_tick_follows:
  assumes "strategy_tick fl js shm_book sentiment w self = (e, self', orders)"
  shows "follows (position self) orders (position self') symbol'"
proof (cases "read_all shm_book w")
  case (Inl x)
  with assms show ?thesis
    by (simp add: strategy_tick_def follows_refl)
next
  case (Inr current_ticks)
  obtain e1 self1 where hist: "update_price_history fl self current_ticks = (e1, self1)"
    by (cases "update_price_history fl self current_ticks")
  then have pos: "position self1 = position self"
    by (rule update_price_history_position)
  show ?thesis
  proof (cases e1)
    case (Some x)
    with assms Inr hist pos show ?thesis
      by (auto simp: strategy_tick_def follows_refl)
  next
    case None
    with assms Inr hist
    have "trade_symbols fl js sentiment self1 current_ticks = (e, self', orders)"
      by (simp add: strategy_tick_def)
    then have "follows (position self1) orders (position self') symbol'"
      by (rule trade_symbols_follows)
    then show ?thesis
      by (simp add: pos)
  qed
qed


lemma Strategy_receive_loop_follows:
  "Strategy_receive_loop fl js shm_book table_at news_recv_buffer sock self n
      = (self', n', orders, ending) \<Longrightarrow>
   follows (position self) orders (position self') symbol'"
proof (induction fl js shm_book table_at news_recv_buffer sock self n
    arbitrary: self' n' orders ending rule: Strategy_receive_loop.induct)
  case (1 fl js shm_book table_at news_recv_buffer sock self n)
  note result = "1.prems" [unfolded Strategy_receive_loop.simps
      [of fl js shm_book table_at news_recv_buffer sock self n]]
  show ?case
  proof (cases "receive_framed_news_message news_recv_buffer sock")
    case None
    with result show ?thesis
      by (simp add: follows_refl)
  next
    case (Some received)
    obtain r news_recv_buffer' sock' where received: "received = (r, news_recv_buffer', sock')"
      by (cases received)
    show ?thesis
    proof (cases r)
      case (Inl e)
      with result Some received show ?thesis
        by (simp add: follows_refl)
    next
      case (Inr raw_news)
      show ?thesis
      proof (cases "json_loads js raw_news")
        case (Inl e)
        with result Some received Inr show ?thesis
          by (simp add: follows_refl)
      next
        case loaded: (Inr sentiment)
        obtain e1 self1 orders1 where
          tick: "strategy_tick fl js shm_book sentiment (table_at n) self = (e1, self1, orders1)"
          by (cases "strategy_tick fl js shm_book sentiment (table_at n) self")
        then have first: "follows (position self) orders1 (position self1) symbol'"
          by (rule strategy_tick_follows)
        show ?thesis
        proof (cases e1)
          case raised: (Some e)
          with result Some received Inr loaded tick
          have "self' = self1" "orders = orders1"
            by simp_all
          with first show ?thesis by simp
        next
          case None
          obtain self2 n2 orders2 ending2 where
            rest: "Strategy_receive_loop fl js shm_book table_at news_recv_buffer' sock' self1 (Suc n)
                = (self2, n2, orders2, ending2)"
            by (cases "Strategy_receive_loop fl js shm_book table_at news_recv_buffer' sock'
                  self1 (Suc n)")
          from result Some received Inr loaded tick None rest
          have eq: "self' = self2" "orders = orders1 @ orders2"
            by simp_all
          have "follows (position self1) orders2 (position self2) symbol'"
            using Some received Inr loaded tick None rest
            by (intro "1.IH" [of received r "(news_recv_buffer', sock')" raw_news
                  news_recv_buffer' sock' sentiment e1 "(self1, orders1)" self1 orders1])
               simp_all
          with first show ?thesis
            unfolding eq by (rule follows_trans)
        qed
      qed
    qed
  qed
qed

lemma Strategy_connect_loop_follows:
  "Strategy_connect_loop fl js shm_book table_at news_recv_buffer om_connected om_net news_net
      self n = (orders, st) \<Longrightarrow>
   \<exists>after. follows (position self) orders after symbol'"
proof (induction fl js shm_book table_at news_recv_buffer om_connected om_net news_net self n
    arbitrary: orders st rule: Strategy_connect_loop.induct)
  case (1 fl js shm_book table_at news_recv_buffer news_net self n)
  then show ?case
    by (auto intro: follows_refl)
next
  case (2 fl js shm_book table_at news_recv_buffer e om_net news_net self n)
  then show ?case
    by (auto intro: follows_refl split: if_splits)
next
  case (3 fl js shm_book table_at news_recv_buffer om_net news_net self n)
  then show ?case
    by simp
next
  case (4 fl js shm_book table_at news_recv_buffer om_net self n)
  then show ?case
    by (auto intro: follows_refl)
next
  case (5 fl js shm_book table_at news_recv_buffer om_net e news_net self n)
  then show ?case
    by (auto intro: follows_refl split: if_splits)
next
  case (6 fl js shm_book table_at news_recv_buffer om_net sock news_net self n)
  obtain self1 n1 orders1 ending where
    received: "Strategy_receive_loop fl js shm_book table_at [] sock self n
        = (self1, n1, orders1, ending)"
    by (cases "Strategy_receive_loop fl js shm_book table_at [] sock self n")
  then have first: "follows (position self) orders1 (position self1) symbol'"
    by (rule Strategy_receive_loop_follows)
  show ?case
  proof (cases ending)
    case Blocks
    with "6.prems" received have "orders = orders1"
      by simp
    with first show ?thesis by blast
  next
    case (Raises e news_recv_buffer')
    show ?thesis
    proof (cases "is_Exception e")
      case False
      with "6.prems" received Raises have "orders = orders1"
        by simp
      with first show ?thesis by blast
    next
      case True
      obtain orders2 st2 where
        rest: "Strategy_connect_loop fl js shm_book table_at news_recv_buffer' True om_net
            news_net self1 n1 = (orders2, st2)"
        by (cases "Strategy_connect_loop fl js shm_book table_at news_recv_buffer' True om_net
              news_net self1 n1")
      from "6.prems" received Raises True rest have eq: "orders = orders1 @ orders2"
        by simp
      have "\<exists>after. follows (position self1) orders2 after symbol'"
        using received Raises True rest
        by (intro "6.IH" [of self1 "(n1, orders1, ending)" n1 "(orders1, ending)" orders1 ending
              e news_recv_buffer']) simp_all
      then obtain after where "follows (position self1) orders2 after symbol'" ..
      with first have "follows (position self) (orders1 @ orders2) after symbol'"
        by (rule follows_trans)
      then show ?thesis
        unfolding eq ..
    qed
  qed
qed

lemma run_strategy_follows:
  assumes "run_strategy fl js nm syms table_at om_net news_net w = (orders, st)"
  shows "\<exists>after. follows (position (StrategyState_init syms :: 'f StrategyState))
            (orders :: 'f order list) after symbol'"
proof (cases "SharedPriceBook_init fl syms nm False w")
  case (Inl e)
  with assms have "orders = []"
    by (simp add: run_strategy_def split: if_splits)
  then show ?thesis
    by (auto intro: follows_refl)
next
  case (Inr attached)
  obtain shm_book w' where "attached = (shm_book, w')" by (cases attached)
  with assms Inr
  have "Strategy_connect_loop fl js shm_book table_at [] False om_net news_net
          (StrategyState_init syms) 0 = (orders, st)"
    by (simp add: run_strategy_def)
  then show ?thesis
    by (rule Strategy_connect_loop_follows)
qed

text \<open>
  Claim C10.  Take any run of \<^verbatim>\<open>run_strategy\<close>: any outcomes of its connection attempts,
  any data on its news connections, any contents of the shared memory at each read.
  The orders it hands to \<^verbatim>\<open>_send_order\<close> all have the side BUY or SELL, and among the
  orders of any one symbol no two in a row have the same side.  The state of the strategy
  is set up once, before the connection loop, and so the positions outlive every
  reconnection.
\<close>

theorem orders_alternate_per_symbol:
  assumes "run_strategy fl js nm syms table_at om_net news_net w = (orders, st)"
  shows "distinct_adj (sides_of symbol orders)
    \<and> (\<forall>order \<in> set orders. order_side order = BUY \<or> order_side order = SELL)"
proof
  from run_strategy_follows [OF assms, of symbol]
  show "distinct_adj (sides_of symbol orders)"
    by (auto simp: follows_def)
next
  show "\<forall>order \<in> set orders. order_side order = BUY \<or> order_side order = SELL"
  proof
    fix order
    assume member: "order \<in> set orders"
    from run_strategy_follows [OF assms, of "order_symbol order"]
    have "NEUTRAL \<notin> set (sides_of (order_symbol order) orders)"
      by (auto simp: follows_def)
    moreover have "order_side order \<in> set (sides_of (order_symbol order) orders)"
      using member by (simp add: sides_of_def)
    ultimately have "order_side order \<noteq> NEUTRAL"
      by metis
    then show "order_side order = BUY \<or> order_side order = SELL"
      by (cases "order_side order") simp_all
  qed
qed

text \<open>
  A run with two orders: twenty rising prices under a sentiment of 80, then three low
  prices under a sentiment of 10.
\<close>

lemma run_example:
  "run_strategy exact_ops integer_json (str ''book'') [str ''AAPL'']
     (\<lambda>n. \<lparr>names = [str ''book'' \<mapsto> 0],
            blocks = (\<lambda>_. [])(0 := [(str ''AAPL'', if n < 20 then of_nat (Suc n) else 1 / 10)]),
            next_block = 1\<rparr>)
     [None]
     [Connects [Recv ''80\<newline>80\<newline>80\<newline>80\<newline>80\<newline>80\<newline>80\<newline>80\<newline>80\<newline>80\<newline>80\<newline>80\<newline>80\<newline>80\<newline>80\<newline>80\<newline>80\<newline>80\<newline>80\<newline>80\<newline>10\<newline>10\<newline>10\<newline>'']]
     \<lparr>names = [str ''book'' \<mapsto> 0], blocks = (\<lambda>_. [])(0 := [(str ''AAPL'', 0)]),
      next_block = 1\<rparr>
   = ([\<lparr>order_id = 1, order_symbol = str ''AAPL'', order_side = BUY, order_quantity = 10,
        order_price = 20\<rparr>,
       \<lparr>order_id = 2, order_symbol = str ''AAPL'', order_side = SELL, order_quantity = 10,
        order_price = 1 / 10\<rparr>], Waiting_in_recv)"
  by (simp add: run_strategy_def SharedPriceBook_init_def SharedMemory_attach_def dict_of_def
      StrategyState_init_def Strategy_receive_loop.simps split_buffer_def py_find_def
      MESSAGE_DELIMITER_def startswith_def decode_def integer_json_def int_of_json_def
      strategy_tick_def read_all_def data_array_def exact_ops_def trade_symbol_def get_ma_def
      deque_append_def MAX_HISTORY_def LONG_WINDOW_def SHORT_WINDOW_def price_signal_of_def
      truthy_def news_signal_of_def BULLISH_THRESHOLD_def BEARISH_THRESHOLD_def
      final_signal_of_def generate_order_def str_def Let_def)

theorem orders_alternate_per_symbol_witness:
  "distinct_adj (sides_of (str ''AAPL'')
      [\<lparr>order_id = 1, order_symbol = str ''AAPL'', order_side = BUY, order_quantity = 10,
        order_price = 20 :: rat\<rparr>,
       \<lparr>order_id = 2, order_symbol = str ''AAPL'', order_side = SELL, order_quantity = 10,
        order_price = 1 / 10\<rparr>])
   \<and> sides_of (str ''AAPL'')
      [\<lparr>order_id = 1, order_symbol = str ''AAPL'', order_side = BUY, order_quantity = 10,
        order_price = 20 :: rat\<rparr>,
       \<lparr>order_id = 2, order_symbol = str ''AAPL'', order_side = SELL, order_quantity = 10,
        order_price = 1 / 10\<rparr>] = [BUY, SELL]"
  using orders_alternate_per_symbol [OF run_example, of "str ''AAPL''"]
  by (simp add: sides_of_def)

end
